theory Spec2Isabelle
  imports Main "HOL-Library.Word"
begin

unbundle bit_operations_syntax

section \<open>Strings and bytes\<close>

text \<open>
  A Python \<open>str\<close> is modelled as a \<open>string\<close> holding its UTF-8 bytes, one \<open>char\<close> per
  byte, so \<open>s.encode("utf-8")\<close> reads every \<open>char\<close> as a byte and string concatenation
  is list append. A Python \<open>bytes\<close> value is a list of 8-bit words.
\<close>

type_synonym byte = "8 word"
type_synonym bytes = "byte list"

definition encode_utf8 :: "string \<Rightarrow> bytes" where
  "encode_utf8 s = map of_char s"

text \<open>\<open>sep.join(xs)\<close>.\<close>

fun str_join :: "string \<Rightarrow> string list \<Rightarrow> string" where
  "str_join sep [] = []"
| "str_join sep [x] = x"
| "str_join sep (x # y # ys) = x @ sep @ str_join sep (y # ys)"

text \<open>
  \<open>s.lower()\<close> on the ASCII letters. Bytes of other code points are left as they are:
  no code point outside ASCII lower-cases to one of the letters of a supported platform
  name, so membership of \<open>s.lower()\<close> in \<open>SUPPORTED_PLATFORMS\<close> is not affected.
\<close>

definition char_lower :: "char \<Rightarrow> char" where
  "char_lower c =
     (if 65 \<le> (of_char c :: nat) \<and> (of_char c :: nat) \<le> 90
      then char_of ((of_char c :: nat) + 32) else c)"

definition str_lower :: "string \<Rightarrow> string" where
  "str_lower s = map char_lower s"

text \<open>\<open>s.split(":", 1)\<close> unpacked into two names: \<open>None\<close> is the \<open>ValueError\<close> of a
  string without a colon.\<close>

fun split_colon :: "string \<Rightarrow> (string \<times> string) option" where
  "split_colon [] = None"
| "split_colon (c # cs) =
     (if c = CHR '':'' then Some ([], cs)
      else (case split_colon cs of
              None \<Rightarrow> None
            | Some (a, b) \<Rightarrow> Some (c # a, b)))"

subsection \<open>The \<open>repr\<close> of a string and of a dictionary of strings\<close>

definition hex_digit :: "nat \<Rightarrow> char" where
  "hex_digit n = (if n < 10 then char_of (48 + n) else char_of (87 + n))"

text \<open>
  A string holds the UTF-8 bytes of a \<open>str\<close>, so it is a sequence of well-formed
  encoded characters: a lead byte tells how many continuation bytes follow it.
  \<open>utf8_units\<close> cuts a string into the byte groups of its characters, \<open>code_point\<close>
  reads the code point of one group.
\<close>

definition continuation_bytes :: "char \<Rightarrow> nat" where
  "continuation_bytes c =
     (let n = (of_char c :: nat) in
      if n < 0xC0 then 0 else if n < 0xE0 then 1 else if n < 0xF0 then 2 else 3)"

fun utf8_units :: "string \<Rightarrow> string list" where
  "utf8_units [] = []"
| "utf8_units (c # cs) =
     (c # take (continuation_bytes c) cs) # utf8_units (drop (continuation_bytes c) cs)"

definition code_point :: "string \<Rightarrow> nat" where
  "code_point u =
     (case map of_char u of
        [a] \<Rightarrow> a
      | [a, b] \<Rightarrow> (a mod 32) * 64 + b mod 64
      | [a, b, c] \<Rightarrow> (a mod 16) * 4096 + (b mod 64) * 64 + c mod 64
      | [a, b, c, d] \<Rightarrow> (a mod 8) * 262144 + (b mod 64) * 4096 + (c mod 64) * 64 + d mod 64
      | _ \<Rightarrow> 0)"

text \<open>The \<open>w\<close> lower-case hexadecimal digits of \<open>n\<close>.\<close>

definition hex_width :: "nat \<Rightarrow> nat \<Rightarrow> string" where
  "hex_width w n = map (\<lambda>i. hex_digit ((n div 16 ^ (w - 1 - i)) mod 16)) [0..<w]"

text \<open>
  \<open>repr(s)\<close>: single quotes unless the string holds a single quote and no double quote.
  The backslash, the chosen quote, tab, newline and carriage return are escaped, the
  other ASCII control characters are written \<open>\xNN\<close>, the other ASCII characters are
  kept. A character outside ASCII is kept when it is printable and is written \<open>\xNN\<close>,
  \<open>\uNNNN\<close> or \<open>\UNNNNNNNN\<close> by the size of its code point when it is not; which code
  points are printable is a table of the Unicode database and a parameter here
  (\<open>printable\<close>).
\<close>

definition repr_unit :: "(nat \<Rightarrow> bool) \<Rightarrow> char \<Rightarrow> string \<Rightarrow> string" where
  "repr_unit printable q u =
     (let n = code_point u in
      if u = [CHR 0x5C] then [CHR 0x5C, CHR 0x5C]
      else if u = [q] then [CHR 0x5C, q]
      else if n = 9 then [CHR 0x5C, CHR ''t'']
      else if n = 10 then [CHR 0x5C, CHR ''n'']
      else if n = 13 then [CHR 0x5C, CHR ''r'']
      else if n < 32 \<or> n = 127 then [CHR 0x5C, CHR ''x''] @ hex_width 2 n
      else if n < 127 then u
      else if printable n then u
      else if n \<le> 0xFF then [CHR 0x5C, CHR ''x''] @ hex_width 2 n
      else if n \<le> 0xFFFF then [CHR 0x5C, CHR ''u''] @ hex_width 4 n
      else [CHR 0x5C, CHR ''U''] @ hex_width 8 n)"

definition py_repr :: "(nat \<Rightarrow> bool) \<Rightarrow> string \<Rightarrow> string" where
  "py_repr printable s =
     (let q = (if CHR 0x27 \<in> set s \<and> CHR 0x22 \<notin> set s then CHR 0x22 else CHR 0x27)
      in [q] @ concat (map (repr_unit printable q) (utf8_units s)) @ [q])"

text \<open>\<open>str(d)\<close> of a dictionary whose keys and values are strings, in insertion order.\<close>

definition repr_dict :: "(nat \<Rightarrow> bool) \<Rightarrow> (string \<times> string) list \<Rightarrow> string" where
  "repr_dict printable d =
     ''{'' @
     str_join '', '' (map (\<lambda>(k, v). py_repr printable k @ '': '' @ py_repr printable v) d) @
     ''}''"

section \<open>SHA-256 and HMAC (\<open>hashlib.sha256\<close>, \<open>hmac.new\<close>)\<close>

type_synonym w32 = "32 word"

definition K256 :: "w32 list" where
  "K256 =
    [0x428A2F98, 0x71374491, 0xB5C0FBCF, 0xE9B5DBA5, 0x3956C25B, 0x59F111F1, 0x923F82A4, 0xAB1C5ED5,
     0xD807AA98, 0x12835B01, 0x243185BE, 0x550C7DC3, 0x72BE5D74, 0x80DEB1FE, 0x9BDC06A7, 0xC19BF174,
     0xE49B69C1, 0xEFBE4786, 0x0FC19DC6, 0x240CA1CC, 0x2DE92C6F, 0x4A7484AA, 0x5CB0A9DC, 0x76F988DA,
     0x983E5152, 0xA831C66D, 0xB00327C8, 0xBF597FC7, 0xC6E00BF3, 0xD5A79147, 0x06CA6351, 0x14292967,
     0x27B70A85, 0x2E1B2138, 0x4D2C6DFC, 0x53380D13, 0x650A7354, 0x766A0ABB, 0x81C2C92E, 0x92722C85,
     0xA2BFE8A1, 0xA81A664B, 0xC24B8B70, 0xC76C51A3, 0xD192E819, 0xD6990624, 0xF40E3585, 0x106AA070,
     0x19A4C116, 0x1E376C08, 0x2748774C, 0x34B0BCB5, 0x391C0CB3, 0x4ED8AA4A, 0x5B9CCA4F, 0x682E6FF3,
     0x748F82EE, 0x78A5636F, 0x84C87814, 0x8CC70208, 0x90BEFFFA, 0xA4506CEB, 0xBEF9A3F7, 0xC67178F2]"

definition H256 :: "w32 list" where
  "H256 =
    [0x6A09E667, 0xBB67AE85, 0x3C6EF372, 0xA54FF53A, 0x510E527F, 0x9B05688C, 0x1F83D9AB, 0x5BE0CD19]"

definition Ch :: "w32 \<Rightarrow> w32 \<Rightarrow> w32 \<Rightarrow> w32" where
  "Ch x y z = (x AND y) XOR (NOT x AND z)"

definition Maj :: "w32 \<Rightarrow> w32 \<Rightarrow> w32 \<Rightarrow> w32" where
  "Maj x y z = (x AND y) XOR (x AND z) XOR (y AND z)"

definition bsig0 :: "w32 \<Rightarrow> w32" where
  "bsig0 x = word_rotr 2 x XOR word_rotr 13 x XOR word_rotr 22 x"

definition bsig1 :: "w32 \<Rightarrow> w32" where
  "bsig1 x = word_rotr 6 x XOR word_rotr 11 x XOR word_rotr 25 x"

definition ssig0 :: "w32 \<Rightarrow> w32" where
  "ssig0 x = word_rotr 7 x XOR word_rotr 18 x XOR drop_bit 3 x"

definition ssig1 :: "w32 \<Rightarrow> w32" where
  "ssig1 x = word_rotr 17 x XOR word_rotr 19 x XOR drop_bit 10 x"

text \<open>Big-endian words from bytes and back.\<close>

definition be32 :: "bytes \<Rightarrow> w32" where
  "be32 bs = foldl (\<lambda>acc b. push_bit 8 acc OR ucast b) 0 (take 4 bs)"

definition bytes_of_w32 :: "w32 \<Rightarrow> bytes" where
  "bytes_of_w32 w = [ucast (drop_bit 24 w), ucast (drop_bit 16 w), ucast (drop_bit 8 w), ucast w]"

definition bytes_of_len64 :: "nat \<Rightarrow> bytes" where
  "bytes_of_len64 n =
     (let w = (of_nat n :: 64 word) in
      map (\<lambda>i. ucast (drop_bit (8 * (7 - i)) w)) [0..<8])"

text \<open>The padded message: a \<open>0x80\<close> byte, zeros up to 56 modulo 64, the bit length.\<close>

definition sha256_pad :: "bytes \<Rightarrow> bytes" where
  "sha256_pad m =
     m @ [0x80] @ replicate ((119 - length m mod 64) mod 64) 0 @ bytes_of_len64 (8 * length m)"

fun chunks :: "nat \<Rightarrow> nat \<Rightarrow> 'a list \<Rightarrow> 'a list list" where
  "chunks 0 n xs = []"
| "chunks (Suc k) n xs = take n xs # chunks k n (drop n xs)"

fun extend_schedule :: "nat \<Rightarrow> w32 list \<Rightarrow> w32 list" where
  "extend_schedule 0 ws = ws"
| "extend_schedule (Suc k) ws =
     (let t = length ws in
      extend_schedule k
        (ws @ [ssig1 (ws ! (t - 2)) + ws ! (t - 7) + ssig0 (ws ! (t - 15)) + ws ! (t - 16)]))"

definition schedule :: "bytes \<Rightarrow> w32 list" where
  "schedule block = extend_schedule 48 (map be32 (chunks 16 4 block))"

fun sha256_round :: "w32 list \<Rightarrow> w32 \<times> w32 \<Rightarrow> w32 list" where
  "sha256_round [a, b, c, d, e, f, g, h] (k, w) =
     (let t1 = h + bsig1 e + Ch e f g + k + w;
          t2 = bsig0 a + Maj a b c
      in [t1 + t2, a, b, c, d + t1, e, f, g])"
| "sha256_round st kw = st"

definition sha256_compress :: "w32 list \<Rightarrow> bytes \<Rightarrow> w32 list" where
  "sha256_compress hs block =
     map (\<lambda>(x, y). x + y) (zip hs (foldl sha256_round hs (zip K256 (schedule block))))"

definition sha256 :: "bytes \<Rightarrow> bytes" where
  "sha256 m =
     (let p = sha256_pad m in
      concat (map bytes_of_w32 (foldl sha256_compress H256 (chunks (length p div 64) 64 p))))"

text \<open>
  \<open>hmac.new(key, msg, hashlib.sha256).digest()\<close>: a key longer than the block size of
  64 bytes is hashed first, the key is then padded with zero bytes to the block size.
\<close>

definition hmac_key_block :: "bytes \<Rightarrow> bytes" where
  "hmac_key_block key =
     (let k = (if length key > 64 then sha256 key else key)
      in k @ replicate (64 - length k) 0)"

definition hmac_sha256 :: "bytes \<Rightarrow> bytes \<Rightarrow> bytes" where
  "hmac_sha256 key msg =
     (let kb = hmac_key_block key in
      sha256 (map (\<lambda>b. b XOR 0x5C) kb @ sha256 (map (\<lambda>b. b XOR 0x36) kb @ msg)))"

definition hexdigest :: "bytes \<Rightarrow> string" where
  "hexdigest bs = concat (map (\<lambda>b. [hex_digit (unat b div 16), hex_digit (unat b mod 16)]) bs)"

section \<open>Device ID (\<open>src/device_id.py\<close>)\<close>

definition compute_device_id :: "bytes \<Rightarrow> string \<Rightarrow> string \<Rightarrow> string" where
  "compute_device_id secret_key phone_number public_key =
     (let combined_input = phone_number @ public_key
      in hexdigest (hmac_sha256 secret_key (encode_utf8 combined_input)))"

section \<open>Data model of the vault\<close>

datatype StatusCode =
  OK | INVALID_ARGUMENT | UNAUTHENTICATED | NOT_FOUND | ALREADY_EXISTS
  | FAILED_PRECONDITION | UNIMPLEMENTED | INTERNAL

text \<open>An X25519 key pair object, as the key store hands it out.\<close>

datatype keypair = Keypair (private_key: bytes) (public_key: bytes)

text \<open>A value of the decoded token payload (a JSON object).\<close>

datatype jval = JStr string | JInt int

type_synonym payload = "(string \<times> jval) list"

text \<open>The entity row. \<open>eid\<close> is held in its hexadecimal form; a null column is \<open>None\<close>.\<close>

record Entity =
  eid :: string
  phone_number_hash :: string
  password_hash :: string
  country_code :: string
  device_id :: "string option"
  client_publish_pub_key :: string
  client_device_id_pub_key :: string
  publish_keypair :: string
  device_id_keypair :: string
  server_state :: "string option"

text \<open>The token row; \<open>entity\<close> is the \<open>eid\<close> of the owning entity.\<close>

record EntityToken =
  entity :: string
  platform :: string
  account_identifier_hash :: string
  account_identifier :: string
  account_tokens :: string

text \<open>
  The effects a handler performs, in the order it performs them: calls to the OTP
  gateway and writes to the store.
\<close>

datatype event =
  SendOtp string
  | VerifyOtp string string
  | CreateEntityRow Entity
  | SaveEntity Entity
  | DeleteEntityRow Entity
  | CreateTokenRow EntityToken
  | SaveToken EntityToken
  | DeleteToken EntityToken

record vault =
  entities :: "Entity list"
  tokens :: "EntityToken list"
  journal :: "event list"

definition vault0 :: vault where
  "vault0 = \<lparr>entities = [], tokens = [], journal = []\<rparr>"

text \<open>
  A request message. Every RPC's request is read through the same record: a field the
  message does not carry, or carries empty, is the empty string, which is what
  \<open>getattr(request, f, None)\<close> tests as false.
\<close>

record request =
  req_phone_number :: string
  req_country_code :: string
  req_password :: string
  req_client_publish_pub_key :: string
  req_client_device_id_pub_key :: string
  req_ownership_proof_response :: string
  req_long_lived_token :: string
  req_token :: string
  req_platform :: string
  req_account_identifier :: string
  req_device_id :: string
  req_payload_ciphertext :: string
  req_payload_plaintext :: string

definition request0 :: request where
  "request0 =
     \<lparr>req_phone_number = [], req_country_code = [], req_password = [],
      req_client_publish_pub_key = [], req_client_device_id_pub_key = [],
      req_ownership_proof_response = [], req_long_lived_token = [], req_token = [],
      req_platform = [], req_account_identifier = [], req_device_id = [],
      req_payload_ciphertext = [], req_payload_plaintext = []\<rparr>"

definition getattr :: "request \<Rightarrow> string \<Rightarrow> string" where
  "getattr request f =
     (if f = ''phone_number'' then req_phone_number request
      else if f = ''country_code'' then req_country_code request
      else if f = ''password'' then req_password request
      else if f = ''client_publish_pub_key'' then req_client_publish_pub_key request
      else if f = ''client_device_id_pub_key'' then req_client_device_id_pub_key request
      else if f = ''ownership_proof_response'' then req_ownership_proof_response request
      else if f = ''long_lived_token'' then req_long_lived_token request
      else if f = ''token'' then req_token request
      else if f = ''platform'' then req_platform request
      else if f = ''account_identifier'' then req_account_identifier request
      else if f = ''device_id'' then req_device_id request
      else if f = ''payload_ciphertext'' then req_payload_ciphertext request
      else if f = ''payload_plaintext'' then req_payload_plaintext request
      else [])"

text \<open>
  A response message; \<open>response0\<close> is \<open>response()\<close>, every field at its default. The
  entries of \<open>stored_tokens\<close> are the pairs (account identifier, platform).
\<close>

record response =
  long_lived_token :: string
  message :: string
  server_publish_pub_key :: string
  server_device_id_pub_key :: string
  requires_ownership_proof :: bool
  next_attempt_timestamp :: int
  stored_tokens :: "(string \<times> string) list"
  success :: bool
  token :: string
  payload_plaintext :: string
  payload_ciphertext :: string

definition response0 :: response where
  "response0 =
     \<lparr>long_lived_token = [], message = [], server_publish_pub_key = [],
      server_device_id_pub_key = [], requires_ownership_proof = False,
      next_attempt_timestamp = 0, stored_tokens = [], success = False, token = [],
      payload_plaintext = [], payload_ciphertext = []\<rparr>"

text \<open>
  What the caller of an RPC sees: the status code and details set on the gRPC context
  (\<open>OK\<close> and no details when the handler sets none) and the response message.
\<close>

record rpc_result =
  status :: StatusCode
  details :: string
  reply :: response

definition ok :: "response \<Rightarrow> rpc_result" where
  "ok r = \<lparr>status = OK, details = [], reply = r\<rparr>"

datatype exn = NotImplementedError string | Exception string

section \<open>The collaborators outside \<open>src/\<close>\<close>

text \<open>
  The helpers the service imports from modules that are not among the sources
  (\<open>src.crypto\<close>, \<open>src.otp_service\<close>, \<open>src.utils\<close>, \<open>src.long_lived_token\<close>,
  \<open>src.relaysms_payload\<close>), the configuration values and \<open>base64\<close> are parameters of
  the model. \<open>decrypt_and_decode\<close> yields \<open>None\<close> where it raises; \<open>decrypt_payload\<close>
  hands back the ratchet state in its serialised form; the key store behind
  \<open>generate_keypair_and_public_key\<close> is outside the model; \<open>isprintable\<close> is
  \<open>str.isprintable\<close> on one code point outside ASCII, the table \<open>repr\<close> consults.
\<close>

record env =
  HASHING_KEY :: bytes
  KEYSTORE_PATH :: string
  generate_hmac :: "bytes \<Rightarrow> string \<Rightarrow> string"
  verify_hmac :: "bytes \<Rightarrow> string \<Rightarrow> string \<Rightarrow> bool"
  send_otp :: "string \<Rightarrow> bool \<times> string \<times> int"
  verify_otp :: "string \<Rightarrow> string \<Rightarrow> bool \<times> string"
  encrypt_and_encode :: "string \<Rightarrow> string"
  decrypt_and_decode :: "string \<Rightarrow> string option"
  generate_keypair_and_public_key :: "string \<Rightarrow> keypair \<times> bytes"
  generate_eid :: "string \<Rightarrow> string"
  is_valid_x25519_public_key :: "string \<Rightarrow> bool \<times> string"
  load_keypair_object :: "string \<Rightarrow> keypair"
  serialize :: "keypair \<Rightarrow> string"
  agree :: "keypair \<Rightarrow> bytes \<Rightarrow> bytes"
  b64decode :: "string \<Rightarrow> bytes"
  b64encode :: "bytes \<Rightarrow> string"
  generate_llt :: "string \<Rightarrow> bytes \<Rightarrow> string"
  verify_llt :: "string \<Rightarrow> bytes \<Rightarrow> payload option \<times> string"
  decode_relay_sms_payload :: "string \<Rightarrow> bytes \<times> bytes \<times> string option"
  decrypt_payload ::
    "string option \<Rightarrow> bytes \<Rightarrow> keypair \<Rightarrow> bytes \<Rightarrow> bytes \<Rightarrow> bytes
       \<Rightarrow> string \<times> string \<times> string option"
  isprintable :: "nat \<Rightarrow> bool"

text \<open>\<open>os.path.join(a, b)\<close> on a POSIX system.\<close>

definition path_join :: "string \<Rightarrow> string \<Rightarrow> string" where
  "path_join a b =
     (if b \<noteq> [] \<and> hd b = CHR ''/'' then b
      else if a = [] \<or> last a = CHR ''/'' then a @ b
      else a @ ''/'' @ b)"

subsection \<open>The entity store\<close>

text \<open>
  Modelled from the spec: \<open>src.entity\<close> and \<open>src.tokens\<close> are not among the sources.
  The store is the relational mapping of the spec's entity store: \<open>find_entity\<close> looks a
  row up by one column, an entity row is identified by its \<open>eid\<close>, a token row by
  (entity, platform, account identifier hash), and \<open>fetch_entity_tokens\<close> yields the
  rows of one entity, filtered by the columns given.
\<close>

datatype criterion = By_eid string | By_phone_number_hash string | By_device_id string

fun matches :: "criterion \<Rightarrow> Entity \<Rightarrow> bool" where
  "matches (By_eid x) e = (eid e = x)"
| "matches (By_phone_number_hash x) e = (phone_number_hash e = x)"
| "matches (By_device_id x) e = (device_id e = Some x)"

definition find_entity :: "vault \<Rightarrow> criterion \<Rightarrow> Entity option" where
  "find_entity w c = List.find (matches c) (entities w)"

definition create_entity :: "Entity \<Rightarrow> vault \<Rightarrow> vault" where
  "create_entity e w =
     w\<lparr>entities := entities w @ [e], journal := journal w @ [CreateEntityRow e]\<rparr>"

definition save_entity :: "Entity \<Rightarrow> vault \<Rightarrow> vault" where
  "save_entity e w =
     w\<lparr>entities := map (\<lambda>x. if eid x = eid e then e else x) (entities w),
       journal := journal w @ [SaveEntity e]\<rparr>"

definition delete_entity :: "Entity \<Rightarrow> vault \<Rightarrow> vault" where
  "delete_entity e w =
     w\<lparr>entities := filter (\<lambda>x. eid x \<noteq> eid e) (entities w),
       journal := journal w @ [DeleteEntityRow e]\<rparr>"

definition same_token :: "EntityToken \<Rightarrow> EntityToken \<Rightarrow> bool" where
  "same_token t u \<longleftrightarrow>
     entity t = entity u \<and> platform t = platform u
     \<and> account_identifier_hash t = account_identifier_hash u"

definition fetch_entity_tokens ::
  "vault \<Rightarrow> Entity \<Rightarrow> string option \<Rightarrow> string option \<Rightarrow> EntityToken list" where
  "fetch_entity_tokens w entity_obj platform_opt hash_opt =
     filter (\<lambda>t. entity t = eid entity_obj
                 \<and> (case platform_opt of None \<Rightarrow> True | Some p \<Rightarrow> platform t = p)
                 \<and> (case hash_opt of None \<Rightarrow> True | Some h \<Rightarrow> account_identifier_hash t = h))
       (tokens w)"

definition create_entity_token :: "EntityToken \<Rightarrow> vault \<Rightarrow> vault" where
  "create_entity_token t w =
     w\<lparr>tokens := tokens w @ [t], journal := journal w @ [CreateTokenRow t]\<rparr>"

definition save_token :: "EntityToken \<Rightarrow> vault \<Rightarrow> vault" where
  "save_token t w =
     w\<lparr>tokens := map (\<lambda>x. if same_token x t then t else x) (tokens w),
       journal := journal w @ [SaveToken t]\<rparr>"

definition delete_token :: "EntityToken \<Rightarrow> vault \<Rightarrow> vault" where
  "delete_token t w =
     w\<lparr>tokens := filter (\<lambda>x. \<not> same_token x t) (tokens w),
       journal := journal w @ [DeleteToken t]\<rparr>"

section \<open>The service (\<open>src/grpc_entity_service.py\<close>)\<close>

definition SUPPORTED_PLATFORMS :: "string list" where
  "SUPPORTED_PLATFORMS = [''gmail'']"

definition sq :: string where
  "sq = [CHR 0x27]"

text \<open>
  \<open>error_response\<close> sets the details and the code on the context and returns an empty
  response; the user message falls back to the system message when it is not given.
\<close>

definition error_response :: "string \<Rightarrow> StatusCode \<Rightarrow> string option \<Rightarrow> rpc_result" where
  "error_response sys_msg status_code user_msg =
     \<lparr>status = status_code,
      details = (case user_msg of None \<Rightarrow> sys_msg | Some u \<Rightarrow> if u = [] then sys_msg else u),
      reply = response0\<rparr>"

subsection \<open>Request validation\<close>

text \<open>An entry of \<open>required_fields\<close>: a field name, or a tuple of alternatives.\<close>

datatype required_field = Field string | AnyOf "string list"

fun missing_field :: "request \<Rightarrow> required_field \<Rightarrow> string list" where
  "missing_field request (AnyOf fs) =
     (if \<not> list_ex (\<lambda>f. getattr request f \<noteq> []) fs
      then [''('' @ str_join '' or '' fs @ '')''] else [])"
| "missing_field request (Field f) =
     (if getattr request f = [] then [f] else [])"

definition x25519_fields :: "string list" where
  "x25519_fields = [''client_publish_pub_key'', ''client_device_id_pub_key'']"

text \<open>
  \<open>None\<close> when nothing is missing or invalid. The source walks the X25519 fields as a
  set; here they are visited in the order of \<open>x25519_fields\<close>.
\<close>

definition validate_request_fields ::
  "env \<Rightarrow> request \<Rightarrow> required_field list \<Rightarrow> rpc_result option" where
  "validate_request_fields env request required_fields =
     (let missing_fields = concat (map (missing_field request) required_fields) in
      if missing_fields \<noteq> [] then
        Some (error_response
                (''Missing required fields: '' @ str_join '', '' missing_fields)
                INVALID_ARGUMENT None)
      else
        let invalid_fields =
              concat (map (\<lambda>f. case is_valid_x25519_public_key env (getattr request f) of
                                  (is_valid, err) \<Rightarrow> if \<not> is_valid then [(f, err)] else [])
                        (filter (\<lambda>f. Field f \<in> set required_fields) x25519_fields))
        in if invalid_fields \<noteq> [] then
             Some (error_response (''Invalid fields: '' @ repr_dict (isprintable env) invalid_fields)
                     INVALID_ARGUMENT None)
           else None)"

subsection \<open>Proof of ownership\<close>

text \<open>Both return the error response on the left, the gateway's answer on the right.\<close>

definition handle_pow_verification ::
  "env \<Rightarrow> vault \<Rightarrow> request \<Rightarrow> (rpc_result + string) \<times> vault" where
  "handle_pow_verification env w request =
     (case verify_otp env (req_phone_number request) (req_ownership_proof_response request) of
        (succeeded, msg) \<Rightarrow>
          (let w' = w\<lparr>journal := journal w @
                       [VerifyOtp (req_phone_number request)
                          (req_ownership_proof_response request)]\<rparr>
           in if \<not> succeeded then
                (Inl (error_response
                        (''Ownership proof verification failed. Reason: '' @ msg)
                        UNAUTHENTICATED None), w')
              else (Inr msg, w')))"

definition handle_pow_initialization ::
  "env \<Rightarrow> vault \<Rightarrow> request \<Rightarrow> (rpc_result + string \<times> int) \<times> vault" where
  "handle_pow_initialization env w request =
     (case send_otp env (req_phone_number request) of
        (succeeded, msg, expires) \<Rightarrow>
          (let w' = w\<lparr>journal := journal w @ [SendOtp (req_phone_number request)]\<rparr>
           in if \<not> succeeded then
                (Inl (error_response
                        (''Ownership proof initialization failed. Reason: '' @ msg)
                        INVALID_ARGUMENT None), w')
              else (Inr (msg, expires), w')))"

subsection \<open>Long-lived token verification\<close>

definition session_expired_msg :: string where
  "session_expired_msg =
     ''Your session has expired or the token is invalid. '' @
     ''Please log in again to generate a new token.''"

definition create_error_response :: "string \<Rightarrow> rpc_result" where
  "create_error_response error_msg =
     error_response error_msg UNAUTHENTICATED (Some session_expired_msg)"

definition entity_device_id_shared_key :: "env \<Rightarrow> Entity \<Rightarrow> bytes" where
  "entity_device_id_shared_key env entity_obj =
     agree env (load_keypair_object env (device_id_keypair entity_obj))
       (b64decode env (client_device_id_pub_key entity_obj))"

definition verify_long_lived_token ::
  "env \<Rightarrow> vault \<Rightarrow> request \<Rightarrow> Entity option \<times> rpc_result option" where
  "verify_long_lived_token env w request =
     (case split_colon (req_long_lived_token request) of
        None \<Rightarrow>
          (None, Some (create_error_response
                         ''not enough values to unpack (expected 2, got 1)''))
      | Some (weid, llt) \<Rightarrow>
          (case find_entity w (By_eid weid) of
             None \<Rightarrow>
               (None, Some (create_error_response
                  (''Possible token tampering detected. Entity not found with eid: '' @ weid)))
           | Some entity_obj \<Rightarrow>
               (case verify_llt env llt (entity_device_id_shared_key env entity_obj) of
                  (llt_payload, llt_error) \<Rightarrow>
                    (case llt_payload of
                       None \<Rightarrow> (None, Some (create_error_response llt_error))
                     | Some pl \<Rightarrow>
                         if pl = [] then (None, Some (create_error_response llt_error))
                         else if map_of pl ''eid'' \<noteq> Some (JStr weid) then
                           (None, Some (create_error_response
                              (''Possible token tampering detected. EID mismatch: '' @ weid)))
                         else (Some entity_obj, None)))))"

subsection \<open>The catch-all clauses of the handlers\<close>

definition oops_msg :: string where
  "oops_msg = ''Oops! Something went wrong. Please try again later.''"

text \<open>\<open>try: ... except Exception\<close>.\<close>

fun handle_exceptions :: "(exn + rpc_result) \<times> vault \<Rightarrow> rpc_result \<times> vault" where
  "handle_exceptions (Inr r, w) = (r, w)"
| "handle_exceptions (Inl (NotImplementedError e), w) =
     (error_response e INTERNAL (Some oops_msg), w)"
| "handle_exceptions (Inl (Exception e), w) =
     (error_response e INTERNAL (Some oops_msg), w)"

text \<open>\<open>try: ... except NotImplementedError ... except Exception\<close>.\<close>

fun handle_exceptions_ni :: "(exn + rpc_result) \<times> vault \<Rightarrow> rpc_result \<times> vault" where
  "handle_exceptions_ni (Inr r, w) = (r, w)"
| "handle_exceptions_ni (Inl (NotImplementedError e), w) =
     (error_response e UNIMPLEMENTED None, w)"
| "handle_exceptions_ni (Inl (Exception e), w) =
     (error_response e INTERNAL (Some oops_msg), w)"

definition unsupported_platform_msg :: "string \<Rightarrow> string" where
  "unsupported_platform_msg p =
     ''The platform '' @ sq @ p @ sq @ '' is currently not supported. '' @
     ''Please contact the developers for more information on when '' @
     ''this platform will be implemented.''"

definition unimplemented_response :: "request \<Rightarrow> rpc_result" where
  "unimplemented_response request =
     \<lparr>status = UNIMPLEMENTED,
      details = unsupported_platform_msg (req_platform request),
      reply = response0\<rparr>"

definition invalid_device_id_msg :: "string \<Rightarrow> string" where
  "invalid_device_id_msg d =
     ''Invalid device ID '' @ sq @ d @ sq @ ''. '' @
     ''Please log in again to obtain a valid device ID.''"

definition no_token_found_msg :: "request \<Rightarrow> string" where
  "no_token_found_msg request =
     ''No token found with account '' @
     ''identifier '' @ req_account_identifier request @ '' for '' @ req_platform request"

subsection \<open>\<open>CreateEntity\<close>\<close>

definition complete_creation :: "env \<Rightarrow> vault \<Rightarrow> request \<Rightarrow> (exn + rpc_result) \<times> vault" where
  "complete_creation env w request =
     (case handle_pow_verification env w request of
        (Inl pow_response, w1) \<Rightarrow> (Inr pow_response, w1)
      | (Inr _, w1) \<Rightarrow>
          (let phone_hash = generate_hmac env (HASHING_KEY env) (req_phone_number request);
               new_eid = generate_eid env phone_hash;
               pw_hash = generate_hmac env (HASHING_KEY env) (req_password request);
               country_code_ciphertext_b64 = encrypt_and_encode env (req_country_code request)
           in case generate_keypair_and_public_key env
                     (path_join (KEYSTORE_PATH env) (new_eid @ ''_publish.db'')) of
                (entity_publish_keypair, entity_publish_pub_key) \<Rightarrow>
              (case generate_keypair_and_public_key env
                      (path_join (KEYSTORE_PATH env) (new_eid @ ''_device_id.db'')) of
                 (entity_device_id_keypair, entity_device_id_pub_key) \<Rightarrow>
                (let device_id_shared_key =
                       agree env entity_device_id_keypair
                         (b64decode env (req_client_device_id_pub_key request));
                     new_llt = generate_llt env new_eid device_id_shared_key;
                     fields =
                       \<lparr>eid = new_eid,
                        phone_number_hash = phone_hash,
                        password_hash = pw_hash,
                        country_code = country_code_ciphertext_b64,
                        device_id = Some (compute_device_id device_id_shared_key
                                            (req_phone_number request)
                                            (req_client_device_id_pub_key request)),
                        client_publish_pub_key = req_client_publish_pub_key request,
                        client_device_id_pub_key = req_client_device_id_pub_key request,
                        publish_keypair = serialize env entity_publish_keypair,
                        device_id_keypair = serialize env entity_device_id_keypair,
                        server_state = None\<rparr>
                 in (Inr (ok (response0
                       \<lparr>long_lived_token := new_llt,
                        message := ''Entity created successfully'',
                        server_publish_pub_key := b64encode env entity_publish_pub_key,
                        server_device_id_pub_key := b64encode env entity_device_id_pub_key\<rparr>)),
                     create_entity fields w1)))))"

definition initiate_creation :: "env \<Rightarrow> vault \<Rightarrow> request \<Rightarrow> (exn + rpc_result) \<times> vault" where
  "initiate_creation env w request =
     (case handle_pow_initialization env w request of
        (Inl pow_response, w1) \<Rightarrow> (Inr pow_response, w1)
      | (Inr (msg, expires), w1) \<Rightarrow>
          (Inr (ok (response0
             \<lparr>message := msg,
              requires_ownership_proof := True,
              next_attempt_timestamp := expires\<rparr>)), w1))"

definition CreateEntity :: "env \<Rightarrow> vault \<Rightarrow> request \<Rightarrow> rpc_result \<times> vault" where
  "CreateEntity env w request =
     handle_exceptions
       (case validate_request_fields env request [Field ''phone_number''] of
          Some invalid_fields_response \<Rightarrow> (Inr invalid_fields_response, w)
        | None \<Rightarrow>
            (let phone_hash = generate_hmac env (HASHING_KEY env) (req_phone_number request)
             in case find_entity w (By_phone_number_hash phone_hash) of
                  Some entity_obj \<Rightarrow>
                    (Inr (error_response
                       (''Entity with phone number `'' @ req_phone_number request @
                        ''` already exists.'')
                       ALREADY_EXISTS None), w)
                | None \<Rightarrow>
                    if req_ownership_proof_response request \<noteq> [] then
                      (case validate_request_fields env request
                              [Field ''country_code'', Field ''password'',
                               Field ''client_publish_pub_key'',
                               Field ''client_device_id_pub_key''] of
                         Some invalid_fields_response \<Rightarrow> (Inr invalid_fields_response, w)
                       | None \<Rightarrow> complete_creation env w request)
                    else initiate_creation env w request))"

subsection \<open>\<open>AuthenticateEntity\<close>\<close>

definition incorrect_credentials_msg :: string where
  "incorrect_credentials_msg =
     ''Incorrect credentials. Please double-check '' @ ''your details and try again.''"

definition initiate_authentication ::
  "env \<Rightarrow> vault \<Rightarrow> request \<Rightarrow> Entity \<Rightarrow> (exn + rpc_result) \<times> vault" where
  "initiate_authentication env w request entity_obj =
     (case validate_request_fields env request [Field ''password''] of
        Some invalid_fields_response \<Rightarrow> (Inr invalid_fields_response, w)
      | None \<Rightarrow>
          if \<not> verify_hmac env (HASHING_KEY env) (req_password request)
                 (password_hash entity_obj) then
            (Inr (error_response
               (''Incorrect Password provided for phone number '' @ req_phone_number request)
               UNAUTHENTICATED (Some incorrect_credentials_msg)), w)
          else
            (case handle_pow_initialization env w request of
               (Inl pow_response, w1) \<Rightarrow> (Inr pow_response, w1)
             | (Inr (msg, expires), w1) \<Rightarrow>
                 (Inr (ok (response0
                    \<lparr>message := msg,
                     requires_ownership_proof := True,
                     next_attempt_timestamp := expires\<rparr>)),
                  save_entity (entity_obj\<lparr>device_id := None, server_state := None\<rparr>) w1)))"

definition complete_authentication ::
  "env \<Rightarrow> vault \<Rightarrow> request \<Rightarrow> Entity \<Rightarrow> (exn + rpc_result) \<times> vault" where
  "complete_authentication env w request entity_obj =
     (case validate_request_fields env request
             [Field ''client_publish_pub_key'', Field ''client_device_id_pub_key''] of
        Some invalid_fields_response \<Rightarrow> (Inr invalid_fields_response, w)
      | None \<Rightarrow>
          (case handle_pow_verification env w request of
             (Inl pow_response, w1) \<Rightarrow> (Inr pow_response, w1)
           | (Inr _, w1) \<Rightarrow>
               (let the_eid = eid entity_obj
                in case generate_keypair_and_public_key env
                          (path_join (KEYSTORE_PATH env) (the_eid @ ''_publish.db'')) of
                     (entity_publish_keypair, entity_publish_pub_key) \<Rightarrow>
                   (case generate_keypair_and_public_key env
                           (path_join (KEYSTORE_PATH env) (the_eid @ ''_device_id.db'')) of
                      (entity_device_id_keypair, entity_device_id_pub_key) \<Rightarrow>
                     (let device_id_shared_key =
                            agree env entity_device_id_keypair
                              (b64decode env (req_client_device_id_pub_key request));
                          new_llt = generate_llt env the_eid device_id_shared_key;
                          entity_obj' = entity_obj
                            \<lparr>device_id := Some (compute_device_id device_id_shared_key
                                                 (req_phone_number request)
                                                 (req_client_device_id_pub_key request)),
                             client_publish_pub_key := req_client_publish_pub_key request,
                             client_device_id_pub_key := req_client_device_id_pub_key request,
                             publish_keypair := serialize env entity_publish_keypair,
                             device_id_keypair := serialize env entity_device_id_keypair\<rparr>
                      in (Inr (ok (response0
                            \<lparr>long_lived_token := new_llt,
                             message := ''Entity authenticated successfully!'',
                             server_publish_pub_key := b64encode env entity_publish_pub_key,
                             server_device_id_pub_key :=
                               b64encode env entity_device_id_pub_key\<rparr>)),
                          save_entity entity_obj' w1))))))"

definition AuthenticateEntity :: "env \<Rightarrow> vault \<Rightarrow> request \<Rightarrow> rpc_result \<times> vault" where
  "AuthenticateEntity env w request =
     handle_exceptions
       (case validate_request_fields env request [Field ''phone_number''] of
          Some invalid_fields_response \<Rightarrow> (Inr invalid_fields_response, w)
        | None \<Rightarrow>
            (let phone_hash = generate_hmac env (HASHING_KEY env) (req_phone_number request)
             in case find_entity w (By_phone_number_hash phone_hash) of
                  None \<Rightarrow>
                    (Inr (error_response
                       (''Entity with phone number `'' @ req_phone_number request @
                        ''` not found.'')
                       NOT_FOUND None), w)
                | Some entity_obj \<Rightarrow>
                    if req_ownership_proof_response request \<noteq> [] then
                      complete_authentication env w request entity_obj
                    else initiate_authentication env w request entity_obj))"

subsection \<open>Token handlers\<close>

text \<open>
  The loops that decrypt one field of every fetched row, in order; the first row that
  does not decrypt raises. A row fetched with \<open>fields=["account_identifier", "platform"]\<close>
  is the pair of the two.
\<close>

fun decrypt_identifiers :: "env \<Rightarrow> (string \<times> string) list \<Rightarrow> exn + (string \<times> string) list" where
  "decrypt_identifiers env [] = Inr []"
| "decrypt_identifiers env ((ai, pf) # ts) =
     (case decrypt_and_decode env ai of
        None \<Rightarrow> Inl (Exception ''decrypt_and_decode'')
      | Some plain \<Rightarrow>
          (case decrypt_identifiers env ts of
             Inl e \<Rightarrow> Inl e
           | Inr ps \<Rightarrow> Inr ((plain, pf) # ps)))"

fun decrypt_account_tokens :: "env \<Rightarrow> string list \<Rightarrow> exn + string list" where
  "decrypt_account_tokens env [] = Inr []"
| "decrypt_account_tokens env (c # cs) =
     (case decrypt_and_decode env c of
        None \<Rightarrow> Inl (Exception ''decrypt_and_decode'')
      | Some plain \<Rightarrow>
          (case decrypt_account_tokens env cs of
             Inl e \<Rightarrow> Inl e
           | Inr ps \<Rightarrow> Inr (plain # ps)))"

definition ListEntityStoredTokens :: "env \<Rightarrow> vault \<Rightarrow> request \<Rightarrow> rpc_result \<times> vault" where
  "ListEntityStoredTokens env w request =
     handle_exceptions
       (case validate_request_fields env request [Field ''long_lived_token''] of
          Some invalid_fields_response \<Rightarrow> (Inr invalid_fields_response, w)
        | None \<Rightarrow>
            (case verify_long_lived_token env w request of
               (_, Some llt_error_response) \<Rightarrow> (Inr llt_error_response, w)
             | (None, None) \<Rightarrow> (Inl (Exception ''AttributeError''), w)
             | (Some entity_obj, None) \<Rightarrow>
                 (case decrypt_identifiers env
                         (map (\<lambda>t. (account_identifier t, platform t))
                            (fetch_entity_tokens w entity_obj None None)) of
                    Inl e \<Rightarrow> (Inl e, w)
                  | Inr toks \<Rightarrow>
                      (Inr (ok (response0
                         \<lparr>stored_tokens := toks,
                          message := ''Tokens retrieved successfully.''\<rparr>)), w))))"

definition StoreEntityToken :: "env \<Rightarrow> vault \<Rightarrow> request \<Rightarrow> rpc_result \<times> vault" where
  "StoreEntityToken env w request =
     handle_exceptions_ni
       (case validate_request_fields env request
               [Field ''long_lived_token'', Field ''token'', Field ''platform'',
                Field ''account_identifier''] of
          Some invalid_fields_response \<Rightarrow> (Inr invalid_fields_response, w)
        | None \<Rightarrow>
            (case verify_long_lived_token env w request of
               (_, Some llt_error_response) \<Rightarrow> (Inr llt_error_response, w)
             | (entity_opt, None) \<Rightarrow>
                 if str_lower (req_platform request) \<notin> set SUPPORTED_PLATFORMS then
                   (Inl (NotImplementedError (unsupported_platform_msg (req_platform request))), w)
                 else
                   (let ai_hash = generate_hmac env (HASHING_KEY env)
                                    (req_account_identifier request)
                    in case entity_opt of
                         None \<Rightarrow> (Inl (Exception ''AttributeError''), w)
                       | Some entity_obj \<Rightarrow>
                           if fetch_entity_tokens w entity_obj
                                (Some (req_platform request)) (Some ai_hash) \<noteq> [] then
                             (Inr (error_response
                                (''Entity already has a token associated with account '' @
                                 ''identifier '' @ req_account_identifier request @
                                 '' for '' @ req_platform request)
                                ALREADY_EXISTS None), w)
                           else
                             (let new_token =
                                    \<lparr>entity = eid entity_obj,
                                     platform = req_platform request,
                                     account_identifier_hash = ai_hash,
                                     account_identifier =
                                       encrypt_and_encode env (req_account_identifier request),
                                     account_tokens =
                                       encrypt_and_encode env (req_token request)\<rparr>
                              in (Inr (ok (response0
                                    \<lparr>message := ''Token stored successfully.'',
                                     success := True\<rparr>)),
                                  create_entity_token new_token w)))))"

definition fetch_tokens ::
  "env \<Rightarrow> vault \<Rightarrow> request \<Rightarrow> Entity \<Rightarrow> string \<Rightarrow> (exn + rpc_result) \<times> vault" where
  "fetch_tokens env w request entity_obj ai_hash =
     (case decrypt_account_tokens env
             (map account_tokens
                (fetch_entity_tokens w entity_obj (Some (req_platform request)) (Some ai_hash))) of
        Inl e \<Rightarrow> (Inl e, w)
      | Inr [] \<Rightarrow> (Inr (error_response (no_token_found_msg request) NOT_FOUND None), w)
      | Inr (first_token # _) \<Rightarrow>
          (Inr (ok (response0
             \<lparr>message := ''Successfully fetched tokens.'',
              success := True,
              token := first_token\<rparr>)), w))"

text \<open>
  The entity is looked up through the long-lived token when the request carries one,
  else through the device ID; with neither the name \<open>entity_obj\<close> stays unbound.
\<close>

definition GetEntityAccessToken :: "env \<Rightarrow> vault \<Rightarrow> request \<Rightarrow> rpc_result \<times> vault" where
  "GetEntityAccessToken env w request =
     handle_exceptions_ni
       (case validate_request_fields env request
               [AnyOf [''device_id'', ''long_lived_token''], Field ''platform'',
                Field ''account_identifier''] of
          Some invalid_fields_response \<Rightarrow> (Inr invalid_fields_response, w)
        | None \<Rightarrow>
            (case (if req_long_lived_token request \<noteq> [] then
                     (case verify_long_lived_token env w request of
                        (_, Some llt_error_response) \<Rightarrow> Inl llt_error_response
                      | (entity_opt, None) \<Rightarrow> Inr entity_opt)
                   else if req_device_id request \<noteq> [] then
                     (case find_entity w (By_device_id (req_device_id request)) of
                        None \<Rightarrow>
                          Inl (error_response (invalid_device_id_msg (req_device_id request))
                                 UNAUTHENTICATED None)
                      | Some entity_obj \<Rightarrow> Inr (Some entity_obj))
                   else Inr None) of
               Inl early_response \<Rightarrow> (Inr early_response, w)
             | Inr entity_opt \<Rightarrow>
                 if str_lower (req_platform request) \<notin> set SUPPORTED_PLATFORMS then
                   (Inl (NotImplementedError (unsupported_platform_msg (req_platform request))), w)
                 else
                   (let ai_hash = generate_hmac env (HASHING_KEY env)
                                    (req_account_identifier request)
                    in case entity_opt of
                         None \<Rightarrow> (Inl (Exception ''UnboundLocalError''), w)
                       | Some entity_obj \<Rightarrow> fetch_tokens env w request entity_obj ai_hash)))"

definition UpdateEntityToken :: "env \<Rightarrow> vault \<Rightarrow> request \<Rightarrow> rpc_result \<times> vault" where
  "UpdateEntityToken env w request =
     handle_exceptions
       (case validate_request_fields env request
               [Field ''device_id'', Field ''token'', Field ''platform'',
                Field ''account_identifier''] of
          Some invalid_fields_response \<Rightarrow> (Inr invalid_fields_response, w)
        | None \<Rightarrow>
            (case find_entity w (By_device_id (req_device_id request)) of
               None \<Rightarrow>
                 (Inr (error_response (invalid_device_id_msg (req_device_id request))
                         UNAUTHENTICATED None), w)
             | Some entity_obj \<Rightarrow>
                 (let ai_hash = generate_hmac env (HASHING_KEY env)
                                  (req_account_identifier request)
                  in case fetch_entity_tokens w entity_obj
                            (Some (req_platform request)) (Some ai_hash) of
                       [] \<Rightarrow> (Inr (error_response (no_token_found_msg request) NOT_FOUND None), w)
                     | first_token # _ \<Rightarrow>
                         (Inr (ok (response0
                            \<lparr>message := ''Token updated successfully.'',
                             success := True\<rparr>)),
                          save_token
                            (first_token\<lparr>account_tokens :=
                               encrypt_and_encode env (req_token request)\<rparr>) w))))"

definition DeleteEntityToken :: "env \<Rightarrow> vault \<Rightarrow> request \<Rightarrow> rpc_result \<times> vault" where
  "DeleteEntityToken env w request =
     handle_exceptions_ni
       (case validate_request_fields env request
               [Field ''long_lived_token'', Field ''platform'', Field ''account_identifier''] of
          Some invalid_fields_response \<Rightarrow> (Inr invalid_fields_response, w)
        | None \<Rightarrow>
            (case verify_long_lived_token env w request of
               (_, Some llt_error_response) \<Rightarrow> (Inr llt_error_response, w)
             | (entity_opt, None) \<Rightarrow>
                 if str_lower (req_platform request) \<notin> set SUPPORTED_PLATFORMS then
                   (Inl (NotImplementedError (unsupported_platform_msg (req_platform request))), w)
                 else
                   (let ai_hash = generate_hmac env (HASHING_KEY env)
                                    (req_account_identifier request)
                    in case entity_opt of
                         None \<Rightarrow> (Inl (Exception ''AttributeError''), w)
                       | Some entity_obj \<Rightarrow>
                           (case fetch_entity_tokens w entity_obj
                                   (Some (req_platform request)) (Some ai_hash) of
                              [] \<Rightarrow>
                                (Inr (error_response (no_token_found_msg request)
                                        NOT_FOUND None), w)
                            | first_token # _ \<Rightarrow>
                                (Inr (ok (response0
                                   \<lparr>message := ''Token deleted successfully.'',
                                    success := True\<rparr>)),
                                 delete_token first_token w)))))"

subsection \<open>Payload handlers\<close>

definition decrypt_message ::
  "env \<Rightarrow> vault \<Rightarrow> Entity \<Rightarrow> bytes \<Rightarrow> bytes \<Rightarrow> (exn + rpc_result) \<times> vault" where
  "decrypt_message env w entity_obj header content_ciphertext =
     (let pk = load_keypair_object env (publish_keypair entity_obj);
          publish_shared_key = agree env pk (b64decode env (client_publish_pub_key entity_obj))
      in case decrypt_payload env (server_state entity_obj) publish_shared_key pk header
                content_ciphertext (public_key pk) of
           (content_plaintext, new_state, Some decrypt_error) \<Rightarrow>
             (Inr (error_response decrypt_error INVALID_ARGUMENT
                     (Some ''Invalid content format.'')), w)
         | (content_plaintext, new_state, None) \<Rightarrow>
             (Inr (ok (response0
                \<lparr>message := ''Successfully decrypted payload'',
                 success := True,
                 payload_plaintext := content_plaintext\<rparr>)),
              save_entity (entity_obj\<lparr>server_state := Some new_state\<rparr>) w))"

definition DecryptPayload :: "env \<Rightarrow> vault \<Rightarrow> request \<Rightarrow> rpc_result \<times> vault" where
  "DecryptPayload env w request =
     handle_exceptions
       (case validate_request_fields env request
               [Field ''device_id'', Field ''payload_ciphertext''] of
          Some invalid_fields_response \<Rightarrow> (Inr invalid_fields_response, w)
        | None \<Rightarrow>
            (case find_entity w (By_device_id (req_device_id request)) of
               None \<Rightarrow>
                 (Inr (error_response (invalid_device_id_msg (req_device_id request))
                         UNAUTHENTICATED None), w)
             | Some entity_obj \<Rightarrow>
                 (case decode_relay_sms_payload env (req_payload_ciphertext request) of
                    (header, content_ciphertext, Some decode_error) \<Rightarrow>
                      (Inr (error_response decode_error INVALID_ARGUMENT
                              (Some ''Invalid content format.'')), w)
                  | (header, content_ciphertext, None) \<Rightarrow>
                      decrypt_message env w entity_obj header content_ciphertext)))"

text \<open>
  The ratchet step, the framing and the write of the new state stand in comments in
  the source; what runs hands the plaintext back.
\<close>

definition EncryptPayload :: "env \<Rightarrow> vault \<Rightarrow> request \<Rightarrow> rpc_result \<times> vault" where
  "EncryptPayload env w request =
     handle_exceptions
       (case validate_request_fields env request
               [Field ''device_id'', Field ''payload_plaintext''] of
          Some invalid_fields_response \<Rightarrow> (Inr invalid_fields_response, w)
        | None \<Rightarrow>
            (case find_entity w (By_device_id (req_device_id request)) of
               None \<Rightarrow>
                 (Inr (error_response (invalid_device_id_msg (req_device_id request))
                         UNAUTHENTICATED None), w)
             | Some entity_obj \<Rightarrow>
                 (let b64_encoded_content = req_payload_plaintext request
                  in (Inr (ok (response0
                        \<lparr>message := ''Successfully encrypted payload.'',
                         payload_ciphertext := b64_encoded_content,
                         success := True\<rparr>)), w))))"

subsection \<open>\<open>DeleteEntity\<close>\<close>

definition fetch_stored_tokens :: "env \<Rightarrow> vault \<Rightarrow> Entity \<Rightarrow> exn + rpc_result option" where
  "fetch_stored_tokens env w entity_obj =
     (case decrypt_identifiers env
             (map (\<lambda>t. (account_identifier t, platform t))
                (fetch_entity_tokens w entity_obj None None)) of
        Inl e \<Rightarrow> Inl e
      | Inr toks \<Rightarrow>
          if toks \<noteq> [] then
            (let token_details =
                   str_join ''; ''
                     (map (\<lambda>(ai, pf). repr_dict (isprintable env)
                                       [(''account_identifier'', ai), (''platform'', pf)])
                        toks)
             in Inr (Some (error_response
                  (''You cannot delete entity because it still has stored tokens. '' @
                   ''Revoke stored tokens with the following platforms and try again: '' @
                   token_details @ ''.'')
                  FAILED_PRECONDITION None)))
          else Inr None)"

definition DeleteEntity :: "env \<Rightarrow> vault \<Rightarrow> request \<Rightarrow> rpc_result \<times> vault" where
  "DeleteEntity env w request =
     handle_exceptions
       (case validate_request_fields env request [Field ''long_lived_token''] of
          Some invalid_fields_response \<Rightarrow> (Inr invalid_fields_response, w)
        | None \<Rightarrow>
            (case verify_long_lived_token env w request of
               (_, Some llt_error_response) \<Rightarrow> (Inr llt_error_response, w)
             | (None, None) \<Rightarrow> (Inl (Exception ''AttributeError''), w)
             | (Some entity_obj, None) \<Rightarrow>
                 (case fetch_stored_tokens env w entity_obj of
                    Inl e \<Rightarrow> (Inl e, w)
                  | Inr (Some blocked_response) \<Rightarrow> (Inr blocked_response, w)
                  | Inr None \<Rightarrow>
                      (Inr (ok (response0
                         \<lparr>message := ''Entity deleted successfully.'',
                          success := True\<rparr>)),
                       delete_entity entity_obj w))))"

subsection \<open>The states the service reaches\<close>

datatype rpc =
  M_CreateEntity | M_AuthenticateEntity | M_ListEntityStoredTokens | M_StoreEntityToken
  | M_DecryptPayload | M_GetEntityAccessToken | M_EncryptPayload | M_UpdateEntityToken
  | M_DeleteEntityToken | M_DeleteEntity

fun serve :: "env \<Rightarrow> vault \<Rightarrow> rpc \<Rightarrow> request \<Rightarrow> rpc_result \<times> vault" where
  "serve env w M_CreateEntity request = CreateEntity env w request"
| "serve env w M_AuthenticateEntity request = AuthenticateEntity env w request"
| "serve env w M_ListEntityStoredTokens request = ListEntityStoredTokens env w request"
| "serve env w M_StoreEntityToken request = StoreEntityToken env w request"
| "serve env w M_DecryptPayload request = DecryptPayload env w request"
| "serve env w M_GetEntityAccessToken request = GetEntityAccessToken env w request"
| "serve env w M_EncryptPayload request = EncryptPayload env w request"
| "serve env w M_UpdateEntityToken request = UpdateEntityToken env w request"
| "serve env w M_DeleteEntityToken request = DeleteEntityToken env w request"
| "serve env w M_DeleteEntity request = DeleteEntity env w request"

text \<open>The stores that a sequence of RPCs produces from the empty store.\<close>

inductive reachable :: "env \<Rightarrow> vault \<Rightarrow> bool" for env :: env where
  reachable_init: "reachable env vault0"
| reachable_step: "reachable env w \<Longrightarrow> reachable env (snd (serve env w m request))"

definition supported_tokens :: "vault \<Rightarrow> bool" where
  "supported_tokens w \<longleftrightarrow>
     list_all (\<lambda>t. str_lower (platform t) \<in> set SUPPORTED_PLATFORMS) (tokens w)"

subsection \<open>What a stored token shows in the message of \<open>DeleteEntity\<close>\<close>

definition decryptable :: "env \<Rightarrow> EntityToken \<Rightarrow> bool" where
  "decryptable env t \<longleftrightarrow> decrypt_and_decode env (account_identifier t) \<noteq> None"

definition token_detail :: "env \<Rightarrow> EntityToken \<Rightarrow> string" where
  "token_detail env t =
     repr_dict (isprintable env)
       [(''account_identifier'', the (decrypt_and_decode env (account_identifier t))),
        (''platform'', platform t)]"

section \<open>A concrete instance\<close>

text \<open>
  One instance of the collaborators and a small store, on which the handlers are run
  at concrete requests. The hash prefixes its input with \<open>h.\<close>, encryption with
  \<open>enc.\<close>; the OTP gateway accepts the code \<open>123456\<close>; a token \<open>signed.X\<close> verifies and
  carries the payload \<open>{"eid": X}\<close>, any other token fails verification.
\<close>

definition env0 :: env where
  "env0 =
     \<lparr>HASHING_KEY = [],
      KEYSTORE_PATH = ''ks'',
      generate_hmac = (\<lambda>k m. ''h.'' @ m),
      verify_hmac = (\<lambda>k m expected. ''h.'' @ m = expected),
      send_otp = (\<lambda>p. (True, ''sent'', 60)),
      verify_otp = (\<lambda>p c. if c = ''123456'' then (True, ''approved'') else (False, ''denied'')),
      encrypt_and_encode = (\<lambda>x. ''enc.'' @ x),
      decrypt_and_decode = (\<lambda>c. if take 4 c = ''enc.'' then Some (drop 4 c) else None),
      generate_keypair_and_public_key = (\<lambda>path. (Keypair [1] [2], [2])),
      generate_eid = (\<lambda>h. ''e1''),
      is_valid_x25519_public_key = (\<lambda>k. (True, [])),
      load_keypair_object = (\<lambda>b. Keypair [1] [2]),
      serialize = (\<lambda>kp. ''kp''),
      agree = (\<lambda>kp peer. [7]),
      b64decode = (\<lambda>x. []),
      b64encode = (\<lambda>b. ''pub''),
      generate_llt = (\<lambda>e k. e @ '':signed.'' @ e),
      verify_llt = (\<lambda>llt k. if take 7 llt = ''signed.''
                             then (Some [(''eid'', JStr (drop 7 llt))], [])
                             else (None, ''Invalid signature'')),
      decode_relay_sms_payload = (\<lambda>x. ([], [], None)),
      decrypt_payload = (\<lambda>st k kp h c pub. (''hello'', ''state1'', None)),
      isprintable = (\<lambda>cp. \<not> (cp \<le> 0xA0 \<or> cp = 0xAD))\<rparr>"

text \<open>The same instance with an OTP gateway that refuses to send.\<close>

definition env_otp_down :: env where
  "env_otp_down = env0\<lparr>send_otp := (\<lambda>p. (False, ''gateway down'', 0))\<rparr>"

definition alice :: Entity where
  "alice =
     \<lparr>eid = ''e1'',
      phone_number_hash = ''h.+237600000001'',
      password_hash = ''h.hunter2'',
      country_code = ''enc.CM'',
      device_id = Some ''d1'',
      client_publish_pub_key = ''cpub'',
      client_device_id_pub_key = ''cdid'',
      publish_keypair = ''kp'',
      device_id_keypair = ''kp'',
      server_state = Some ''state0''\<rparr>"

definition alice_gmail :: EntityToken where
  "alice_gmail =
     \<lparr>entity = ''e1'',
      platform = ''gmail'',
      account_identifier_hash = ''h.a@x'',
      account_identifier = ''enc.a@x'',
      account_tokens = ''enc.T''\<rparr>"

definition vault_alice :: vault where
  "vault_alice = \<lparr>entities = [alice], tokens = [], journal = []\<rparr>"

definition vault_alice_gmail :: vault where
  "vault_alice_gmail = \<lparr>entities = [alice], tokens = [alice_gmail], journal = []\<rparr>"

text \<open>The second phase of \<open>CreateEntity\<close> for the phone number of \<open>alice\<close>.\<close>

definition create_request :: request where
  "create_request =
     request0\<lparr>req_phone_number := ''+237600000001'', req_country_code := ''CM'',
              req_password := ''hunter2'', req_client_publish_pub_key := ''cpub'',
              req_client_device_id_pub_key := ''cdid'',
              req_ownership_proof_response := ''123456''\<rparr>"

text \<open>
  A store the RPCs produce from the empty one: the entity that \<open>create_request\<close>
  creates, then a token stored for it under the platform name \<open>GMAIL\<close>; and a request
  to update that entity's token for a given platform.
\<close>

definition created_entity :: Entity where
  "created_entity =
     \<lparr>eid = ''e1'',
      phone_number_hash = ''h.+237600000001'',
      password_hash = ''h.hunter2'',
      country_code = ''enc.CM'',
      device_id = Some (compute_device_id [7] ''+237600000001'' ''cdid''),
      client_publish_pub_key = ''cpub'',
      client_device_id_pub_key = ''cdid'',
      publish_keypair = ''kp'',
      device_id_keypair = ''kp'',
      server_state = None\<rparr>"

definition store_request :: request where
  "store_request =
     request0\<lparr>req_long_lived_token := ''e1:signed.e1'', req_token := ''T'',
              req_platform := ''GMAIL'', req_account_identifier := ''a@x''\<rparr>"

definition stored_token :: EntityToken where
  "stored_token =
     \<lparr>entity = ''e1'',
      platform = ''GMAIL'',
      account_identifier_hash = ''h.a@x'',
      account_identifier = ''enc.a@x'',
      account_tokens = ''enc.T''\<rparr>"

definition vault_stored :: vault where
  "vault_stored =
     snd (StoreEntityToken env0 (snd (CreateEntity env0 vault0 create_request)) store_request)"

definition update_request :: "string \<Rightarrow> request" where
  "update_request p =
     request0\<lparr>req_device_id := compute_device_id [7] ''+237600000001'' ''cdid'',
              req_token := ''T2'', req_platform := p, req_account_identifier := ''a@x''\<rparr>"

text \<open>The two phases of a login of \<open>alice\<close>, and an entity with its device binding cleared.\<close>

definition login_request :: request where
  "login_request =
     request0\<lparr>req_phone_number := ''+237600000001'', req_password := ''hunter2''\<rparr>"

definition login_proof_request :: request where
  "login_proof_request =
     request0\<lparr>req_phone_number := ''+237600000001'',
              req_client_publish_pub_key := ''cpub2'',
              req_client_device_id_pub_key := ''cdid2'',
              req_ownership_proof_response := ''123456''\<rparr>"

definition cleared :: "Entity \<Rightarrow> Entity" where
  "cleared entity_obj = entity_obj\<lparr>device_id := None, server_state := None\<rparr>"

section \<open>Device ID: what the identifier depends on\<close>

lemma hmac_key_block_append_zero:
  "length k < 64 \<Longrightarrow> hmac_key_block (k @ [0]) = hmac_key_block k"
proof -
  assume l: "length k < 64"
  then have "64 - length k = Suc (64 - Suc (length k))" by arith
  then have "replicate (64 - length k) (0::byte) = 0 # replicate (64 - Suc (length k)) 0"
    by simp
  with l show ?thesis by (simp add: hmac_key_block_def)
qed

lemma unat_of_char: "unat (of_char c :: byte) = of_char c"
proof -
  have "unat (of_nat (of_char c) :: byte) = (of_char c :: nat) mod 2 ^ LENGTH(8)"
    by (rule unat_of_nat)
  then show ?thesis by (simp add: of_nat_of_char)
qed

lemma encode_utf8_inj: "encode_utf8 s = encode_utf8 t \<Longrightarrow> s = t"
proof -
  assume "encode_utf8 s = encode_utf8 t"
  then have "map unat (encode_utf8 s) = map unat (encode_utf8 t)" by simp
  then have "map (of_char :: char \<Rightarrow> nat) s = map of_char t"
    by (simp add: encode_utf8_def unat_of_char comp_def)
  then show "s = t"
    by (simp add: inj_on_def inj_map_eq_map [unfolded inj_on_def])
qed

lemma hmac_key_block_inj:
  "length k = length k' \<Longrightarrow> length k \<le> 64 \<Longrightarrow>
   hmac_key_block k = hmac_key_block k' \<Longrightarrow> k = k'"
  by (simp add: hmac_key_block_def)

text \<open>
  C8 (as amended). \<open>compute_device_id sk p pub\<close> is the lower-case hexadecimal of
  HMAC-SHA256 keyed on \<open>sk\<close> over the UTF-8 bytes of \<open>p\<close> followed by \<open>pub\<close> with no
  separator, and it is a function of its inputs. It depends on \<open>p\<close> and \<open>pub\<close> only
  through their concatenation and on \<open>sk\<close> only through the 64-byte key block of HMAC:
  inputs that agree on both have the same identifier, for certain. Between keys of one
  length of at most 64 bytes, every change of the key or of the concatenation changes
  what HMAC is given (that the digest then differs rests on the hash).
\<close>

theorem compute_device_id_hmac:
  "compute_device_id sk p pub = hexdigest (hmac_sha256 sk (encode_utf8 (p @ pub)))
   \<and> (hmac_key_block sk = hmac_key_block sk' \<and> p @ pub = p' @ pub'
        \<longrightarrow> compute_device_id sk p pub = compute_device_id sk' p' pub')
   \<and> (length sk = length sk' \<and> length sk \<le> 64 \<and> (sk \<noteq> sk' \<or> p @ pub \<noteq> p' @ pub')
        \<longrightarrow> (hmac_key_block sk, encode_utf8 (p @ pub))
              \<noteq> (hmac_key_block sk', encode_utf8 (p' @ pub')))"
proof (intro conjI impI)
  show "compute_device_id sk p pub = hexdigest (hmac_sha256 sk (encode_utf8 (p @ pub)))"
    by (simp add: compute_device_id_def)
next
  assume "hmac_key_block sk = hmac_key_block sk' \<and> p @ pub = p' @ pub'"
  then show "compute_device_id sk p pub = compute_device_id sk' p' pub'"
    by (simp add: compute_device_id_def hmac_sha256_def)
next
  assume h: "length sk = length sk' \<and> length sk \<le> 64 \<and> (sk \<noteq> sk' \<or> p @ pub \<noteq> p' @ pub')"
  show "(hmac_key_block sk, encode_utf8 (p @ pub))
              \<noteq> (hmac_key_block sk', encode_utf8 (p' @ pub'))"
  proof
    assume "(hmac_key_block sk, encode_utf8 (p @ pub))
              = (hmac_key_block sk', encode_utf8 (p' @ pub'))"
    then have k: "hmac_key_block sk = hmac_key_block sk'"
      and m: "encode_utf8 (p @ pub) = encode_utf8 (p' @ pub')"
      by simp_all
    from h have "length sk = length sk'" and "length sk \<le> 64" by simp_all
    then have "sk = sk'" using k by (rule hmac_key_block_inj)
    moreover from m have "p @ pub = p' @ pub'" by (rule encode_utf8_inj)
    ultimately show False using h by simp
  qed
qed

theorem compute_device_id_hmac_witness:
  "hmac_key_block [0x6B] = hmac_key_block [0x6B, 0] \<and> ''a'' @ ''bc'' = ''ab'' @ ''c''
   \<and> compute_device_id [0x6B] ''a'' ''bc'' = compute_device_id [0x6B, 0] ''ab'' ''c''
   \<and> length [0x6B :: byte] = length [0x6C :: byte] \<and> length [0x6B :: byte] \<le> 64
   \<and> [0x6B] \<noteq> [0x6C :: byte]
   \<and> (hmac_key_block [0x6B], encode_utf8 (''a'' @ ''bc''))
        \<noteq> (hmac_key_block [0x6C], encode_utf8 (''a'' @ ''bc''))"
proof -
  have k: "hmac_key_block [0x6B] = hmac_key_block [0x6B, 0]"
    using hmac_key_block_append_zero [of "[0x6B]"] by simp
  have c: "''a'' @ ''bc'' = ''ab'' @ ''c''" by simp
  from compute_device_id_hmac [of "[0x6B]" "''a''" "''bc''" "[0x6B, 0]" "''ab''" "''c''"] k c
  have 1: "compute_device_id [0x6B] ''a'' ''bc'' = compute_device_id [0x6B, 0] ''ab'' ''c''"
    by blast
  have l: "length [0x6B :: byte] = length [0x6C :: byte] \<and> length [0x6B :: byte] \<le> 64
           \<and> [0x6B] \<noteq> [0x6C :: byte]"
    by simp
  from compute_device_id_hmac [of "[0x6B]" "''a''" "''bc''" "[0x6C]" "''a''" "''bc''"] l
  have 2: "(hmac_key_block [0x6B], encode_utf8 (''a'' @ ''bc''))
        \<noteq> (hmac_key_block [0x6C], encode_utf8 (''a'' @ ''bc''))"
    by blast
  from k c 1 l 2 show ?thesis by blast
qed

text \<open>
  C8 as stated fails: the one-byte key \<open>k\<close> and the two-byte key \<open>k\<close>, \<open>0x00\<close> are
  different secret keys, and with the same phone number and public key they give the
  same device ID, since HMAC pads a short key with zero bytes.
\<close>

theorem compute_device_id_key_padding_collision:
  "[0x6B] \<noteq> [0x6B, 0 :: byte] \<and>
   compute_device_id [0x6B] ''+237600000001'' ''cdid''
     = compute_device_id [0x6B, 0] ''+237600000001'' ''cdid''"
proof -
  have "hmac_key_block ([0x6B] @ [0]) = hmac_key_block [0x6B]"
    by (rule hmac_key_block_append_zero) simp
  then show ?thesis
    by (simp add: compute_device_id_def hmac_sha256_def)
qed

section \<open>Long-lived token verification: binding and failures\<close>

lemma session_expired_msg_nonempty: "session_expired_msg \<noteq> []"
  by (simp add: session_expired_msg_def)

lemma create_error_response_eq:
  "create_error_response m =
     \<lparr>status = UNAUTHENTICATED, details = session_expired_msg, reply = response0\<rparr>"
  by (simp add: create_error_response_def error_response_def session_expired_msg_nonempty)

lemma find_entity_eid: "find_entity w (By_eid x) = Some e \<Longrightarrow> eid e = x"
  by (auto simp: find_entity_def find_Some_iff)

lemma verify_long_lived_token_cases:
  "verify_long_lived_token env w request = (r_ent, r_err) \<Longrightarrow>
     (r_ent = None \<and> r_err = Some (create_error_response []))
     \<or> (\<exists>weid llt pl err ent.
           r_ent = Some ent \<and> r_err = None
           \<and> split_colon (req_long_lived_token request) = Some (weid, llt)
           \<and> find_entity w (By_eid weid) = Some ent
           \<and> verify_llt env llt (entity_device_id_shared_key env ent) = (Some pl, err)
           \<and> map_of pl ''eid'' = Some (JStr weid))"
  by (auto simp: verify_long_lived_token_def create_error_response_eq
           split: option.splits prod.splits if_splits)

text \<open>
  C3. Whenever the payload that \<open>verify_llt\<close> accepts carries an \<open>eid\<close> other than the one
  before the first colon of the wire form, \<open>verify_long_lived_token\<close> fails with
  \<open>UNAUTHENTICATED\<close> and the generic session-expired message. Hence a token that
  authenticates as an entity carries that entity's \<open>eid\<close> in its payload: a token minted
  for entity A never authenticates as entity B.
\<close>

theorem verify_long_lived_token_eid_binding:
  "(split_colon (req_long_lived_token request) = Some (weid, llt)
      \<and> find_entity w (By_eid weid) = Some entity_obj
      \<and> verify_llt env llt (entity_device_id_shared_key env entity_obj) = (Some pl, err)
      \<and> map_of pl ''eid'' \<noteq> Some (JStr weid)
    \<longrightarrow> verify_long_lived_token env w request =
          (None, Some \<lparr>status = UNAUTHENTICATED, details = session_expired_msg,
                       reply = response0\<rparr>))
   \<and> (verify_long_lived_token env w request = (Some entity_b, None)
    \<longrightarrow> (\<exists>weid' llt' pl' err'.
           split_colon (req_long_lived_token request) = Some (weid', llt')
           \<and> find_entity w (By_eid weid') = Some entity_b
           \<and> verify_llt env llt' (entity_device_id_shared_key env entity_b) = (Some pl', err')
           \<and> map_of pl' ''eid'' = Some (JStr (eid entity_b))))"
proof (intro conjI impI)
  assume "split_colon (req_long_lived_token request) = Some (weid, llt)
      \<and> find_entity w (By_eid weid) = Some entity_obj
      \<and> verify_llt env llt (entity_device_id_shared_key env entity_obj) = (Some pl, err)
      \<and> map_of pl ''eid'' \<noteq> Some (JStr weid)"
  then show "verify_long_lived_token env w request =
          (None, Some \<lparr>status = UNAUTHENTICATED, details = session_expired_msg,
                       reply = response0\<rparr>)"
    by (simp add: verify_long_lived_token_def create_error_response_eq)
next
  assume "verify_long_lived_token env w request = (Some entity_b, None)"
  from verify_long_lived_token_cases [OF this]
  obtain weid' llt' pl' err' where
    s: "split_colon (req_long_lived_token request) = Some (weid', llt')"
    and f: "find_entity w (By_eid weid') = Some entity_b"
    and v: "verify_llt env llt' (entity_device_id_shared_key env entity_b) = (Some pl', err')"
    and m: "map_of pl' ''eid'' = Some (JStr weid')"
    by auto
  from f have "eid entity_b = weid'" by (rule find_entity_eid)
  with s f v m show "\<exists>weid' llt' pl' err'.
           split_colon (req_long_lived_token request) = Some (weid', llt')
           \<and> find_entity w (By_eid weid') = Some entity_b
           \<and> verify_llt env llt' (entity_device_id_shared_key env entity_b) = (Some pl', err')
           \<and> map_of pl' ''eid'' = Some (JStr (eid entity_b))"
    by auto
qed

lemma find_alice: "find_entity vault_alice (By_eid ''e1'') = Some alice"
  by (simp add: find_entity_def vault_alice_def alice_def)

theorem verify_long_lived_token_eid_binding_witness:
  "split_colon ''e1:signed.e2'' = Some (''e1'', ''signed.e2'')
   \<and> find_entity vault_alice (By_eid ''e1'') = Some alice
   \<and> verify_llt env0 ''signed.e2'' (entity_device_id_shared_key env0 alice)
       = (Some [(''eid'', JStr ''e2'')], [])
   \<and> map_of [(''eid'', JStr ''e2'')] ''eid'' \<noteq> Some (JStr ''e1'')
   \<and> verify_long_lived_token env0 vault_alice
        (request0\<lparr>req_long_lived_token := ''e1:signed.e2''\<rparr>)
       = (None, Some \<lparr>status = UNAUTHENTICATED, details = session_expired_msg,
                      reply = response0\<rparr>)
   \<and> verify_long_lived_token env0 vault_alice
        (request0\<lparr>req_long_lived_token := ''e1:signed.e1''\<rparr>) = (Some alice, None)
   \<and> eid alice = ''e1''"
proof -
  have s: "split_colon (req_long_lived_token (request0\<lparr>req_long_lived_token := ''e1:signed.e2''\<rparr>))
             = Some (''e1'', ''signed.e2'')"
    by simp
  have v: "verify_llt env0 ''signed.e2'' (entity_device_id_shared_key env0 alice)
             = (Some [(''eid'', JStr ''e2'')], [])"
    by (simp add: env0_def)
  have m: "map_of [(''eid'', JStr ''e2'')] ''eid'' \<noteq> Some (JStr ''e1'')"
    by simp
  have ok: "verify_long_lived_token env0 vault_alice
        (request0\<lparr>req_long_lived_token := ''e1:signed.e1''\<rparr>) = (Some alice, None)"
    by (simp add: verify_long_lived_token_def find_alice env0_def)
  from verify_long_lived_token_eid_binding
         [of "request0\<lparr>req_long_lived_token := ''e1:signed.e2''\<rparr>" "''e1''" "''signed.e2''"
             vault_alice alice env0 "[(''eid'', JStr ''e2'')]" "[]" alice]
       s find_alice v m
  have "verify_long_lived_token env0 vault_alice
        (request0\<lparr>req_long_lived_token := ''e1:signed.e2''\<rparr>)
       = (None, Some \<lparr>status = UNAUTHENTICATED, details = session_expired_msg,
                      reply = response0\<rparr>)"
    by blast
  with s v m ok find_alice show ?thesis by (simp add: alice_def)
qed

text \<open>
  C9 (as amended). Any two failing runs of the long-lived token verification, whether
  the lookup of the \<open>eid\<close> failed or the check of the signature did, give the caller the
  same status, the same message and the same response.
\<close>

theorem llt_failures_indistinguishable:
  "verify_long_lived_token env1 w1 request1 = (e1, Some r1) \<Longrightarrow>
   verify_long_lived_token env2 w2 request2 = (e2, Some r2) \<Longrightarrow>
   r1 = r2 \<and> status r1 = UNAUTHENTICATED \<and> details r1 = session_expired_msg"
  by (auto dest!: verify_long_lived_token_cases simp: create_error_response_eq)

theorem llt_failures_indistinguishable_witness:
  "verify_long_lived_token env0 vault_alice (request0\<lparr>req_long_lived_token := ''e9:signed.e9''\<rparr>)
     = (None, Some (create_error_response []))
   \<and> verify_long_lived_token env0 vault_alice (request0\<lparr>req_long_lived_token := ''e1:forged''\<rparr>)
     = (None, Some (create_error_response []))
   \<and> status (create_error_response []) = UNAUTHENTICATED
   \<and> details (create_error_response []) = session_expired_msg"
proof -
  have a: "verify_long_lived_token env0 vault_alice
             (request0\<lparr>req_long_lived_token := ''e9:signed.e9''\<rparr>)
           = (None, Some (create_error_response []))"
    by (simp add: verify_long_lived_token_def find_entity_def vault_alice_def alice_def
          create_error_response_eq)
  have b: "verify_long_lived_token env0 vault_alice
             (request0\<lparr>req_long_lived_token := ''e1:forged''\<rparr>)
           = (None, Some (create_error_response []))"
    by (simp add: verify_long_lived_token_def find_alice env0_def create_error_response_eq)
  from llt_failures_indistinguishable [OF a b] a b show ?thesis by simp
qed

lemma oops_msg_nonempty: "oops_msg \<noteq> []"
  by (simp add: oops_msg_def)

lemma incorrect_credentials_msg_nonempty: "incorrect_credentials_msg \<noteq> []"
  by (simp add: incorrect_credentials_msg_def)

lemma find_alice_by_phone:
  "find_entity vault_alice (By_phone_number_hash ''h.+237600000001'') = Some alice"
  by (simp add: find_entity_def vault_alice_def alice_def)

lemma validate_phone_number:
  "validate_request_fields env request [Field ''phone_number''] =
     (if req_phone_number request = []
      then Some (error_response ''Missing required fields: phone_number'' INVALID_ARGUMENT None)
      else None)"
  by (simp add: validate_request_fields_def getattr_def x25519_fields_def)

lemma validate_password:
  "validate_request_fields env request [Field ''password''] =
     (if req_password request = []
      then Some (error_response ''Missing required fields: password'' INVALID_ARGUMENT None)
      else None)"
  by (simp add: validate_request_fields_def getattr_def x25519_fields_def)

text \<open>
  C9 as stated fails in \<open>AuthenticateEntity\<close>: an unknown phone number is answered with
  \<open>NOT_FOUND\<close> and a message that names the phone number, a wrong password with
  \<open>UNAUTHENTICATED\<close> and another message.
\<close>

theorem authenticate_failures_distinguishable:
  "fst (AuthenticateEntity env0 vault_alice
          (request0\<lparr>req_phone_number := ''+237600000009'', req_password := ''hunter2''\<rparr>))
     = \<lparr>status = NOT_FOUND,
        details = ''Entity with phone number `+237600000009` not found.'',
        reply = response0\<rparr>
   \<and> fst (AuthenticateEntity env0 vault_alice
          (request0\<lparr>req_phone_number := ''+237600000001'', req_password := ''wrong''\<rparr>))
     = \<lparr>status = UNAUTHENTICATED,
        details = ''Incorrect credentials. Please double-check your details and try again.'',
        reply = response0\<rparr>"
proof -
  have a: "fst (AuthenticateEntity env0 vault_alice
          (request0\<lparr>req_phone_number := ''+237600000009'', req_password := ''hunter2''\<rparr>))
     = \<lparr>status = NOT_FOUND,
        details = ''Entity with phone number `+237600000009` not found.'',
        reply = response0\<rparr>"
    by (simp add: AuthenticateEntity_def validate_phone_number request0_def env0_def
          find_entity_def vault_alice_def alice_def error_response_def)
  have b: "fst (AuthenticateEntity env0 vault_alice
          (request0\<lparr>req_phone_number := ''+237600000001'', req_password := ''wrong''\<rparr>))
     = \<lparr>status = UNAUTHENTICATED,
        details = ''Incorrect credentials. Please double-check your details and try again.'',
        reply = response0\<rparr>"
    by (simp add: AuthenticateEntity_def initiate_authentication_def validate_phone_number
          validate_password request0_def env0_def find_entity_def vault_alice_def alice_def
          error_response_def incorrect_credentials_msg_def)
  from a b show ?thesis by simp
qed

section \<open>Handlers: payload, creation, platform whitelist\<close>

lemma EncryptPayload_stub:
  "validate_request_fields env request [Field ''device_id'', Field ''payload_plaintext''] = None \<Longrightarrow>
   find_entity w (By_device_id (req_device_id request)) = Some entity_obj \<Longrightarrow>
   EncryptPayload env w request =
     (ok (response0\<lparr>message := ''Successfully encrypted payload.'',
                    payload_ciphertext := req_payload_plaintext request,
                    success := True\<rparr>), w)"
  by (simp add: EncryptPayload_def)

text \<open>
  C1. The specification asks for the ratchet step, the write of the new \<open>server_state\<close>
  and the framed ciphertext. What the handler does on the store \<open>vault_alice\<close> for the device ID
  \<open>d1\<close> and the plaintext \<open>hello\<close>: it answers \<open>hello\<close> as \<open>payload_ciphertext\<close> and
  leaves the store, and with it the \<open>server_state\<close> of the entity, as it was.
\<close>

theorem EncryptPayload_returns_plaintext:
  "EncryptPayload env0 vault_alice
     (request0\<lparr>req_device_id := ''d1'', req_payload_plaintext := ''hello''\<rparr>)
   = (ok (response0\<lparr>message := ''Successfully encrypted payload.'',
                    payload_ciphertext := ''hello'',
                    success := True\<rparr>),
      vault_alice)"
proof -
  have v: "validate_request_fields env0
             (request0\<lparr>req_device_id := ''d1'', req_payload_plaintext := ''hello''\<rparr>)
             [Field ''device_id'', Field ''payload_plaintext''] = None"
    by (simp add: validate_request_fields_def getattr_def x25519_fields_def)
  have f: "find_entity vault_alice
             (By_device_id (req_device_id
                (request0\<lparr>req_device_id := ''d1'', req_payload_plaintext := ''hello''\<rparr>)))
           = Some alice"
    by (simp add: find_entity_def vault_alice_def alice_def)
  from EncryptPayload_stub [OF v f] show ?thesis by simp
qed

text \<open>
  C5. \<open>CreateEntity\<close> without \<open>ownership_proof_response\<close>: a missing \<open>phone_number\<close> is
  \<open>INVALID_ARGUMENT\<close>; an existing entity with the hash of the phone number is
  \<open>ALREADY_EXISTS\<close> and nothing is sent or written; otherwise the OTP gateway is called
  once, nothing else changes, and when the gateway reports success the response has
  \<open>requires_ownership_proof\<close> set and carries the gateway's message and timestamp.
\<close>

theorem CreateEntity_phase1:
  assumes "req_ownership_proof_response request = []"
  shows
   "(req_phone_number request = [] \<longrightarrow>
       CreateEntity env w request =
         (\<lparr>status = INVALID_ARGUMENT,
           details = ''Missing required fields: phone_number'',
           reply = response0\<rparr>, w))
    \<and> (req_phone_number request \<noteq> []
        \<and> find_entity w (By_phone_number_hash
              (generate_hmac env (HASHING_KEY env) (req_phone_number request))) = Some existing \<longrightarrow>
       status (fst (CreateEntity env w request)) = ALREADY_EXISTS
       \<and> snd (CreateEntity env w request) = w)
    \<and> (req_phone_number request \<noteq> []
        \<and> find_entity w (By_phone_number_hash
              (generate_hmac env (HASHING_KEY env) (req_phone_number request))) = None \<longrightarrow>
       snd (CreateEntity env w request)
         = w\<lparr>journal := journal w @ [SendOtp (req_phone_number request)]\<rparr>
       \<and> (send_otp env (req_phone_number request) = (True, msg, expires) \<longrightarrow>
            fst (CreateEntity env w request) =
              ok (response0\<lparr>message := msg,
                             requires_ownership_proof := True,
                             next_attempt_timestamp := expires\<rparr>)))"
  using assms
  by (auto simp: CreateEntity_def validate_phone_number error_response_def
        initiate_creation_def handle_pow_initialization_def Let_def
      split: prod.splits)

theorem CreateEntity_phase1_witness:
  "req_ownership_proof_response request0 = []
   \<and> CreateEntity env0 vault_alice request0 =
        (\<lparr>status = INVALID_ARGUMENT,
          details = ''Missing required fields: phone_number'',
          reply = response0\<rparr>, vault_alice)
   \<and> find_entity vault_alice (By_phone_number_hash ''h.+237600000001'') = Some alice
   \<and> status (fst (CreateEntity env0 vault_alice
                     (request0\<lparr>req_phone_number := ''+237600000001''\<rparr>))) = ALREADY_EXISTS
   \<and> snd (CreateEntity env0 vault_alice
             (request0\<lparr>req_phone_number := ''+237600000001''\<rparr>)) = vault_alice
   \<and> find_entity vault0 (By_phone_number_hash ''h.+237600000001'') = None
   \<and> send_otp env0 ''+237600000001'' = (True, ''sent'', 60)
   \<and> CreateEntity env0 vault0 (request0\<lparr>req_phone_number := ''+237600000001''\<rparr>) =
        (ok (response0\<lparr>message := ''sent'',
                       requires_ownership_proof := True,
                       next_attempt_timestamp := 60\<rparr>),
         vault0\<lparr>journal := [SendOtp ''+237600000001'']\<rparr>)"
proof -
  let ?r = "request0\<lparr>req_phone_number := ''+237600000001''\<rparr>"
  have o0: "req_ownership_proof_response request0 = []"
    by (simp add: request0_def)
  have o1: "req_ownership_proof_response ?r = []"
    by (simp add: request0_def)
  have p0: "req_phone_number request0 = []"
    by (simp add: request0_def)
  have p1: "req_phone_number ?r \<noteq> []"
    by simp
  have h: "generate_hmac env0 (HASHING_KEY env0) (req_phone_number ?r) = ''h.+237600000001''"
    by (simp add: env0_def)
  have f0: "find_entity vault0 (By_phone_number_hash ''h.+237600000001'') = None"
    by (simp add: find_entity_def vault0_def)
  have s: "send_otp env0 (req_phone_number ?r) = (True, ''sent'', 60)"
    by (simp add: env0_def)
  from CreateEntity_phase1 [OF o0, of env0 vault_alice] p0
  have a: "CreateEntity env0 vault_alice request0 =
        (\<lparr>status = INVALID_ARGUMENT,
          details = ''Missing required fields: phone_number'',
          reply = response0\<rparr>, vault_alice)"
    by blast
  from CreateEntity_phase1 [OF o1, of env0 vault_alice alice] p1 h find_alice_by_phone
  have b: "status (fst (CreateEntity env0 vault_alice ?r)) = ALREADY_EXISTS
           \<and> snd (CreateEntity env0 vault_alice ?r) = vault_alice"
    by simp
  from CreateEntity_phase1 [OF o1, of env0 vault0 _ "''sent''" 60] p1 h f0 s
  have c: "snd (CreateEntity env0 vault0 ?r)
             = vault0\<lparr>journal := journal vault0 @ [SendOtp (req_phone_number ?r)]\<rparr>
           \<and> fst (CreateEntity env0 vault0 ?r) =
              ok (response0\<lparr>message := ''sent'',
                             requires_ownership_proof := True,
                             next_attempt_timestamp := 60\<rparr>)"
    by simp
  then have c': "CreateEntity env0 vault0 ?r =
        (ok (response0\<lparr>message := ''sent'',
                       requires_ownership_proof := True,
                       next_attempt_timestamp := 60\<rparr>),
         vault0\<lparr>journal := [SendOtp ''+237600000001'']\<rparr>)"
    by (simp add: prod_eq_iff vault0_def)
  from o0 a find_alice_by_phone b f0 s c' show ?thesis by simp
qed


text \<open>
  C4. For a request that passes validation and authentication and whose lower-cased
  platform is not in \<open>SUPPORTED_PLATFORMS\<close>, each of \<open>StoreEntityToken\<close>,
  \<open>GetEntityAccessToken\<close> and \<open>DeleteEntityToken\<close> returns \<open>UNIMPLEMENTED\<close> and leaves the
  store as it was.
\<close>

theorem unsupported_platform_unimplemented:
  assumes "str_lower (req_platform request) \<notin> set SUPPORTED_PLATFORMS"
  shows
   "(validate_request_fields env request
        [Field ''long_lived_token'', Field ''token'', Field ''platform'',
         Field ''account_identifier''] = None
      \<and> verify_long_lived_token env w request = (Some entity_obj, None) \<longrightarrow>
       StoreEntityToken env w request = (unimplemented_response request, w))
    \<and> (validate_request_fields env request
          [AnyOf [''device_id'', ''long_lived_token''], Field ''platform'',
           Field ''account_identifier''] = None
      \<and> (if req_long_lived_token request \<noteq> []
          then verify_long_lived_token env w request = (Some entity_obj, None)
          else find_entity w (By_device_id (req_device_id request)) = Some entity_obj) \<longrightarrow>
       GetEntityAccessToken env w request = (unimplemented_response request, w))
    \<and> (validate_request_fields env request
          [Field ''long_lived_token'', Field ''platform'', Field ''account_identifier''] = None
      \<and> verify_long_lived_token env w request = (Some entity_obj, None) \<longrightarrow>
       DeleteEntityToken env w request = (unimplemented_response request, w))"
  using assms
  by (simp add: StoreEntityToken_def GetEntityAccessToken_def DeleteEntityToken_def
        unimplemented_response_def error_response_def)


lemma verify_alice:
  "req_long_lived_token request = ''e1:signed.e1'' \<Longrightarrow>
   entities w = [alice] \<Longrightarrow>
   verify_long_lived_token env0 w request = (Some alice, None)"
  by (simp add: verify_long_lived_token_def find_entity_def alice_def env0_def)

theorem unsupported_platform_unimplemented_witness:
  "str_lower ''Twitter'' \<notin> set SUPPORTED_PLATFORMS
   \<and> verify_long_lived_token env0 vault_alice_gmail
        (request0\<lparr>req_long_lived_token := ''e1:signed.e1'', req_token := ''T'',
                  req_platform := ''Twitter'', req_account_identifier := ''a@x''\<rparr>)
       = (Some alice, None)
   \<and> StoreEntityToken env0 vault_alice_gmail
        (request0\<lparr>req_long_lived_token := ''e1:signed.e1'', req_token := ''T'',
                  req_platform := ''Twitter'', req_account_identifier := ''a@x''\<rparr>)
       = (\<lparr>status = UNIMPLEMENTED, details = unsupported_platform_msg ''Twitter'',
           reply = response0\<rparr>, vault_alice_gmail)
   \<and> GetEntityAccessToken env0 vault_alice_gmail
        (request0\<lparr>req_long_lived_token := ''e1:signed.e1'', req_token := ''T'',
                  req_platform := ''Twitter'', req_account_identifier := ''a@x''\<rparr>)
       = (\<lparr>status = UNIMPLEMENTED, details = unsupported_platform_msg ''Twitter'',
           reply = response0\<rparr>, vault_alice_gmail)
   \<and> DeleteEntityToken env0 vault_alice_gmail
        (request0\<lparr>req_long_lived_token := ''e1:signed.e1'', req_token := ''T'',
                  req_platform := ''Twitter'', req_account_identifier := ''a@x''\<rparr>)
       = (\<lparr>status = UNIMPLEMENTED, details = unsupported_platform_msg ''Twitter'',
           reply = response0\<rparr>, vault_alice_gmail)"
proof -
  let ?r = "request0\<lparr>req_long_lived_token := ''e1:signed.e1'', req_token := ''T'',
                  req_platform := ''Twitter'', req_account_identifier := ''a@x''\<rparr>"
  have p: "str_lower (req_platform ?r) \<notin> set SUPPORTED_PLATFORMS"
    by (simp add: str_lower_def char_lower_def SUPPORTED_PLATFORMS_def)
  have v1: "validate_request_fields env0 ?r
        [Field ''long_lived_token'', Field ''token'', Field ''platform'',
         Field ''account_identifier''] = None"
    by (simp add: validate_request_fields_def getattr_def x25519_fields_def)
  have v2: "validate_request_fields env0 ?r
          [AnyOf [''device_id'', ''long_lived_token''], Field ''platform'',
           Field ''account_identifier''] = None"
    by (simp add: validate_request_fields_def getattr_def x25519_fields_def)
  have v3: "validate_request_fields env0 ?r
          [Field ''long_lived_token'', Field ''platform'', Field ''account_identifier''] = None"
    by (simp add: validate_request_fields_def getattr_def x25519_fields_def)
  have a: "verify_long_lived_token env0 vault_alice_gmail ?r = (Some alice, None)"
    by (rule verify_alice) (simp_all add: vault_alice_gmail_def)
  have l: "req_long_lived_token ?r \<noteq> []" by simp
  from unsupported_platform_unimplemented [OF p, of env0 vault_alice_gmail alice] v1 v2 v3 a l
  have "StoreEntityToken env0 vault_alice_gmail ?r = (unimplemented_response ?r, vault_alice_gmail)
      \<and> GetEntityAccessToken env0 vault_alice_gmail ?r = (unimplemented_response ?r, vault_alice_gmail)
      \<and> DeleteEntityToken env0 vault_alice_gmail ?r = (unimplemented_response ?r, vault_alice_gmail)"
    by simp
  with p a show ?thesis by (simp add: unimplemented_response_def)
qed

section \<open>Authenticators of \<open>GetEntityAccessToken\<close>\<close>

lemma validate_get_token:
  "validate_request_fields env request
     [AnyOf [''device_id'', ''long_lived_token''], Field ''platform'',
      Field ''account_identifier'']
   = (let missing =
            (if req_device_id request = [] \<and> req_long_lived_token request = []
             then [''(device_id or long_lived_token)''] else [])
            @ (if req_platform request = [] then [''platform''] else [])
            @ (if req_account_identifier request = [] then [''account_identifier''] else [])
      in if missing \<noteq> [] then
           Some (error_response (''Missing required fields: '' @ str_join '', '' missing)
                   INVALID_ARGUMENT None)
         else None)"
  by (simp add: validate_request_fields_def getattr_def x25519_fields_def Let_def)

text \<open>
  C6 (as amended). A request that carries neither \<open>device_id\<close> nor \<open>long_lived_token\<close>
  is rejected with \<open>INVALID_ARGUMENT\<close>, the message naming \<open>(device_id or
  long_lived_token)\<close>, and nothing changes. A request needs at least one of the two; when
  it carries a long-lived token, that token alone authenticates it and the device ID is
  not looked at.
\<close>

theorem GetEntityAccessToken_authenticators:
  "(req_device_id request = [] \<and> req_long_lived_token request = [] \<longrightarrow>
      (\<exists>others. fst (GetEntityAccessToken env w request) =
         \<lparr>status = INVALID_ARGUMENT,
          details = ''Missing required fields: '' @
                    str_join '', '' (''(device_id or long_lived_token)'' # others),
          reply = response0\<rparr>)
      \<and> snd (GetEntityAccessToken env w request) = w)
   \<and> (req_long_lived_token request \<noteq> [] \<longrightarrow>
        GetEntityAccessToken env w request
          = GetEntityAccessToken env w (request\<lparr>req_device_id := []\<rparr>))"
proof (intro conjI impI)
  assume n: "req_device_id request = [] \<and> req_long_lived_token request = []"
  let ?others = "(if req_platform request = [] then [''platform''] else [])
            @ (if req_account_identifier request = [] then [''account_identifier''] else [])"
  from n have "fst (GetEntityAccessToken env w request) =
         \<lparr>status = INVALID_ARGUMENT,
          details = ''Missing required fields: '' @
                    str_join '', '' (''(device_id or long_lived_token)'' # ?others),
          reply = response0\<rparr>"
    by (simp add: GetEntityAccessToken_def validate_get_token error_response_def)
  then show "\<exists>others. fst (GetEntityAccessToken env w request) =
         \<lparr>status = INVALID_ARGUMENT,
          details = ''Missing required fields: '' @
                    str_join '', '' (''(device_id or long_lived_token)'' # others),
          reply = response0\<rparr>"
    by blast
  from n show "snd (GetEntityAccessToken env w request) = w"
    by (simp add: GetEntityAccessToken_def validate_get_token)
next
  assume l: "req_long_lived_token request \<noteq> []"
  have v: "verify_long_lived_token env w (request\<lparr>req_device_id := []\<rparr>)
             = verify_long_lived_token env w request"
    by (simp add: verify_long_lived_token_def)
  have f: "\<And>e h. fetch_tokens env w (request\<lparr>req_device_id := []\<rparr>) e h
             = fetch_tokens env w request e h"
    by (simp add: fetch_tokens_def no_token_found_msg_def split: sum.splits list.splits)
  from l show "GetEntityAccessToken env w request
          = GetEntityAccessToken env w (request\<lparr>req_device_id := []\<rparr>)"
    by (simp add: GetEntityAccessToken_def validate_get_token v f Let_def
          split: prod.splits option.splits sum.splits)
qed

text \<open>
  C6 as stated fails: a request that carries both a device ID and a long-lived token is
  not turned away; it proceeds and is answered with the stored token.
\<close>

theorem GetEntityAccessToken_accepts_both:
  "req_device_id (request0\<lparr>req_long_lived_token := ''e1:signed.e1'', req_device_id := ''d1'',
                   req_platform := ''gmail'', req_account_identifier := ''a@x''\<rparr>) \<noteq> []
   \<and> req_long_lived_token (request0\<lparr>req_long_lived_token := ''e1:signed.e1'',
                   req_device_id := ''d1'',
                   req_platform := ''gmail'', req_account_identifier := ''a@x''\<rparr>) \<noteq> []
   \<and> GetEntityAccessToken env0 vault_alice_gmail
        (request0\<lparr>req_long_lived_token := ''e1:signed.e1'', req_device_id := ''d1'',
                  req_platform := ''gmail'', req_account_identifier := ''a@x''\<rparr>)
     = (ok (response0\<lparr>message := ''Successfully fetched tokens.'',
                      success := True,
                      token := ''T''\<rparr>),
        vault_alice_gmail)"
proof -
  let ?r = "request0\<lparr>req_long_lived_token := ''e1:signed.e1'', req_device_id := ''d1'',
                  req_platform := ''gmail'', req_account_identifier := ''a@x''\<rparr>"
  have a: "verify_long_lived_token env0 vault_alice_gmail ?r = (Some alice, None)"
    by (rule verify_alice) (simp_all add: vault_alice_gmail_def)
  have p: "str_lower (req_platform ?r) \<in> set SUPPORTED_PLATFORMS"
    by (simp add: str_lower_def char_lower_def SUPPORTED_PLATFORMS_def)
  have h: "generate_hmac env0 (HASHING_KEY env0) ''a@x'' = ''h.a@x''"
    by (simp add: env0_def)
  have t: "fetch_entity_tokens vault_alice_gmail alice (Some (req_platform ?r)) (Some ''h.a@x'')
             = [alice_gmail]"
    by (simp add: fetch_entity_tokens_def vault_alice_gmail_def alice_gmail_def alice_def)
  have d: "decrypt_account_tokens env0 (map account_tokens [alice_gmail]) = Inr [''T'']"
    by (simp add: alice_gmail_def env0_def)
  have f: "fetch_tokens env0 vault_alice_gmail ?r alice ''h.a@x''
             = (Inr (ok (response0\<lparr>message := ''Successfully fetched tokens.'',
                        success := True, token := ''T''\<rparr>)), vault_alice_gmail)"
    unfolding fetch_tokens_def t d by simp
  have "GetEntityAccessToken env0 vault_alice_gmail ?r
     = (ok (response0\<lparr>message := ''Successfully fetched tokens.'',
                      success := True,
                      token := ''T''\<rparr>),
        vault_alice_gmail)"
    using p by (simp add: GetEntityAccessToken_def validate_get_token a h f)
  then show ?thesis by simp
qed

theorem GetEntityAccessToken_authenticators_witness:
  "req_device_id (request0\<lparr>req_platform := ''gmail'', req_account_identifier := ''a@x''\<rparr>) = []
   \<and> req_long_lived_token
        (request0\<lparr>req_platform := ''gmail'', req_account_identifier := ''a@x''\<rparr>) = []
   \<and> (\<exists>others. fst (GetEntityAccessToken env0 vault_alice_gmail
          (request0\<lparr>req_platform := ''gmail'', req_account_identifier := ''a@x''\<rparr>)) =
         \<lparr>status = INVALID_ARGUMENT,
          details = ''Missing required fields: '' @
                    str_join '', '' (''(device_id or long_lived_token)'' # others),
          reply = response0\<rparr>)
   \<and> snd (GetEntityAccessToken env0 vault_alice_gmail
          (request0\<lparr>req_platform := ''gmail'', req_account_identifier := ''a@x''\<rparr>))
       = vault_alice_gmail
   \<and> req_long_lived_token
        (request0\<lparr>req_long_lived_token := ''e1:signed.e1'', req_device_id := ''nobody'',
                  req_platform := ''gmail'', req_account_identifier := ''a@x''\<rparr>) \<noteq> []
   \<and> GetEntityAccessToken env0 vault_alice_gmail
        (request0\<lparr>req_long_lived_token := ''e1:signed.e1'', req_device_id := ''nobody'',
                  req_platform := ''gmail'', req_account_identifier := ''a@x''\<rparr>)
     = GetEntityAccessToken env0 vault_alice_gmail
        (request0\<lparr>req_long_lived_token := ''e1:signed.e1'', req_device_id := [],
                  req_platform := ''gmail'', req_account_identifier := ''a@x''\<rparr>)"
proof -
  let ?n = "request0\<lparr>req_platform := ''gmail'', req_account_identifier := ''a@x''\<rparr>"
  let ?b = "request0\<lparr>req_long_lived_token := ''e1:signed.e1'', req_device_id := ''nobody'',
                  req_platform := ''gmail'', req_account_identifier := ''a@x''\<rparr>"
  have n: "req_device_id ?n = [] \<and> req_long_lived_token ?n = []"
    by (simp add: request0_def)
  have b: "req_long_lived_token ?b \<noteq> []"
    by simp
  from GetEntityAccessToken_authenticators [of ?n env0 vault_alice_gmail] n
  have 1: "(\<exists>others. fst (GetEntityAccessToken env0 vault_alice_gmail ?n) =
         \<lparr>status = INVALID_ARGUMENT,
          details = ''Missing required fields: '' @
                    str_join '', '' (''(device_id or long_lived_token)'' # others),
          reply = response0\<rparr>)
      \<and> snd (GetEntityAccessToken env0 vault_alice_gmail ?n) = vault_alice_gmail"
    by blast
  from GetEntityAccessToken_authenticators [of ?b env0 vault_alice_gmail] b
  have 2: "GetEntityAccessToken env0 vault_alice_gmail ?b
          = GetEntityAccessToken env0 vault_alice_gmail (?b\<lparr>req_device_id := []\<rparr>)"
    by blast
  have 3: "GetEntityAccessToken env0 vault_alice_gmail ?b
     = GetEntityAccessToken env0 vault_alice_gmail
        (request0\<lparr>req_long_lived_token := ''e1:signed.e1'', req_device_id := [],
                  req_platform := ''gmail'', req_account_identifier := ''a@x''\<rparr>)"
  proof -
    have "?b\<lparr>req_device_id := []\<rparr> =
        request0\<lparr>req_long_lived_token := ''e1:signed.e1'', req_device_id := [],
                  req_platform := ''gmail'', req_account_identifier := ''a@x''\<rparr>"
      by (simp add: request0_def)
    with 2 show ?thesis by (simp only:)
  qed
  from n b 1 3 show ?thesis by blast
qed

section \<open>\<open>DeleteEntity\<close> and its precondition\<close>


lemma decrypt_identifiers_decryptable:
  "list_all (decryptable env) ts \<Longrightarrow>
   decrypt_identifiers env (map (\<lambda>t. (account_identifier t, platform t)) ts)
     = Inr (map (\<lambda>t. (the (decrypt_and_decode env (account_identifier t)), platform t)) ts)"
  by (induction ts) (auto simp: decryptable_def)

lemma decrypt_identifiers_length:
  "decrypt_identifiers env xs = Inr ys \<Longrightarrow> length ys = length xs"
  by (induction xs arbitrary: ys) (auto split: option.splits sum.splits)

lemma snd_handle_exceptions: "snd (handle_exceptions x) = snd x"
  by (cases x rule: handle_exceptions.cases) simp_all

lemma snd_handle_exceptions_ni: "snd (handle_exceptions_ni x) = snd x"
  by (cases x rule: handle_exceptions_ni.cases) simp_all

lemma fetch_stored_tokens_blocks:
  "fetch_entity_tokens w entity_obj None None \<noteq> [] \<Longrightarrow>
   fetch_stored_tokens env w entity_obj \<noteq> Inr None"
proof -
  assume ne: "fetch_entity_tokens w entity_obj None None \<noteq> []"
  show ?thesis
  proof (cases "decrypt_identifiers env
             (map (\<lambda>t. (account_identifier t, platform t))
                (fetch_entity_tokens w entity_obj None None))")
    case (Inl e)
    then show ?thesis by (simp add: fetch_stored_tokens_def)
  next
    case (Inr toks)
    from decrypt_identifiers_length [OF Inr] ne have "toks \<noteq> []" by auto
    with Inr show ?thesis by (simp add: fetch_stored_tokens_def Let_def)
  qed
qed

lemma fetch_stored_tokens_decryptable:
  assumes "fetch_entity_tokens w entity_obj None None \<noteq> []"
      and "list_all (decryptable env) (fetch_entity_tokens w entity_obj None None)"
  shows "fetch_stored_tokens env w entity_obj =
     Inr (Some \<lparr>status = FAILED_PRECONDITION,
                details =
                  ''You cannot delete entity because it still has stored tokens. '' @
                  ''Revoke stored tokens with the following platforms and try again: '' @
                  str_join ''; ''
                    (map (token_detail env) (fetch_entity_tokens w entity_obj None None)) @
                  ''.'',
                reply = response0\<rparr>)"
proof -
  have m: "(\<lambda>(ai, pf). repr_dict (isprintable env)
                         [(''account_identifier'', ai), (''platform'', pf)])
             \<circ> (\<lambda>t. (the (decrypt_and_decode env (account_identifier t)), platform t))
           = token_detail env"
    by (simp add: fun_eq_iff token_detail_def)
  from assms show ?thesis
    unfolding fetch_stored_tokens_def decrypt_identifiers_decryptable [OF assms(2)]
    by (simp add: Let_def m error_response_def)
qed

lemma fetch_stored_tokens_empty:
  "fetch_entity_tokens w entity_obj None None = [] \<Longrightarrow>
   fetch_stored_tokens env w entity_obj = Inr None"
  by (simp add: fetch_stored_tokens_def)

lemma find_entity_deleted:
  "find_entity (delete_entity e w) (By_eid (eid e)) = None"
  by (simp add: find_entity_def delete_entity_def find_None_iff)

text \<open>
  C7. \<open>DeleteEntity\<close> with a valid long-lived token. If the entity has a stored token,
  no row of the store is changed, and, the stored account identifiers decrypting, the
  answer is \<open>FAILED_PRECONDITION\<close> with a message that lists, for every remaining token,
  its decrypted account identifier and its platform. If the entity has no token, its
  row is deleted, the token rows stay, and success is returned.
\<close>

theorem DeleteEntity_precondition:
  assumes "validate_request_fields env request [Field ''long_lived_token''] = None"
      and "verify_long_lived_token env w request = (Some entity_obj, None)"
  shows
   "(fetch_entity_tokens w entity_obj None None \<noteq> [] \<longrightarrow>
       snd (DeleteEntity env w request) = w)
    \<and> (fetch_entity_tokens w entity_obj None None \<noteq> []
        \<and> list_all (decryptable env) (fetch_entity_tokens w entity_obj None None) \<longrightarrow>
       fst (DeleteEntity env w request) =
         \<lparr>status = FAILED_PRECONDITION,
          details =
            ''You cannot delete entity because it still has stored tokens. '' @
            ''Revoke stored tokens with the following platforms and try again: '' @
            str_join ''; ''
              (map (token_detail env) (fetch_entity_tokens w entity_obj None None)) @
            ''.'',
          reply = response0\<rparr>)
    \<and> (fetch_entity_tokens w entity_obj None None = [] \<longrightarrow>
       DeleteEntity env w request =
         (ok (response0\<lparr>message := ''Entity deleted successfully.'', success := True\<rparr>),
          delete_entity entity_obj w)
       \<and> find_entity (delete_entity entity_obj w) (By_eid (eid entity_obj)) = None
       \<and> tokens (delete_entity entity_obj w) = tokens w)"
proof (intro conjI impI)
  assume ne: "fetch_entity_tokens w entity_obj None None \<noteq> []"
  from fetch_stored_tokens_blocks [OF ne, of env]
  show "snd (DeleteEntity env w request) = w"
    by (cases "fetch_stored_tokens env w entity_obj")
       (auto simp: DeleteEntity_def assms snd_handle_exceptions split: option.splits)
next
  assume "fetch_entity_tokens w entity_obj None None \<noteq> []
        \<and> list_all (decryptable env) (fetch_entity_tokens w entity_obj None None)"
  then show "fst (DeleteEntity env w request) =
         \<lparr>status = FAILED_PRECONDITION,
          details =
            ''You cannot delete entity because it still has stored tokens. '' @
            ''Revoke stored tokens with the following platforms and try again: '' @
            str_join ''; ''
              (map (token_detail env) (fetch_entity_tokens w entity_obj None None)) @
            ''.'',
          reply = response0\<rparr>"
    by (simp add: DeleteEntity_def assms fetch_stored_tokens_decryptable)
next
  assume e: "fetch_entity_tokens w entity_obj None None = []"
  then show "DeleteEntity env w request =
         (ok (response0\<lparr>message := ''Entity deleted successfully.'', success := True\<rparr>),
          delete_entity entity_obj w)"
    by (simp add: DeleteEntity_def assms fetch_stored_tokens_empty)
  show "find_entity (delete_entity entity_obj w) (By_eid (eid entity_obj)) = None"
    by (rule find_entity_deleted)
  show "tokens (delete_entity entity_obj w) = tokens w"
    by (simp add: delete_entity_def)
qed

theorem DeleteEntity_precondition_witness:
  "validate_request_fields env0 (request0\<lparr>req_long_lived_token := ''e1:signed.e1''\<rparr>)
     [Field ''long_lived_token''] = None
   \<and> verify_long_lived_token env0 vault_alice_gmail
        (request0\<lparr>req_long_lived_token := ''e1:signed.e1''\<rparr>) = (Some alice, None)
   \<and> fetch_entity_tokens vault_alice_gmail alice None None = [alice_gmail]
   \<and> list_all (decryptable env0) [alice_gmail]
   \<and> DeleteEntity env0 vault_alice_gmail (request0\<lparr>req_long_lived_token := ''e1:signed.e1''\<rparr>)
       = (\<lparr>status = FAILED_PRECONDITION,
           details =
             ''You cannot delete entity because it still has stored tokens. '' @
             ''Revoke stored tokens with the following platforms and try again: '' @
             ''{'account_identifier': 'a@x', 'platform': 'gmail'}.'',
           reply = response0\<rparr>,
          vault_alice_gmail)
   \<and> verify_long_lived_token env0 vault_alice
        (request0\<lparr>req_long_lived_token := ''e1:signed.e1''\<rparr>) = (Some alice, None)
   \<and> fetch_entity_tokens vault_alice alice None None = []
   \<and> DeleteEntity env0 vault_alice (request0\<lparr>req_long_lived_token := ''e1:signed.e1''\<rparr>)
       = (ok (response0\<lparr>message := ''Entity deleted successfully.'', success := True\<rparr>),
          \<lparr>entities = [], tokens = [], journal = [DeleteEntityRow alice]\<rparr>)"
proof -
  let ?r = "request0\<lparr>req_long_lived_token := ''e1:signed.e1''\<rparr>"
  have v: "validate_request_fields env0 ?r [Field ''long_lived_token''] = None"
    by (simp add: validate_request_fields_def getattr_def x25519_fields_def)
  have a1: "verify_long_lived_token env0 vault_alice_gmail ?r = (Some alice, None)"
    by (rule verify_alice) (simp_all add: vault_alice_gmail_def)
  have a2: "verify_long_lived_token env0 vault_alice ?r = (Some alice, None)"
    by (rule verify_alice) (simp_all add: vault_alice_def)
  have t1: "fetch_entity_tokens vault_alice_gmail alice None None = [alice_gmail]"
    by (simp add: fetch_entity_tokens_def vault_alice_gmail_def alice_gmail_def alice_def)
  have t2: "fetch_entity_tokens vault_alice alice None None = []"
    by (simp add: fetch_entity_tokens_def vault_alice_def)
  have d: "list_all (decryptable env0) [alice_gmail]"
    by (simp add: decryptable_def alice_gmail_def env0_def)
  have td: "token_detail env0 alice_gmail = ''{'account_identifier': 'a@x', 'platform': 'gmail'}''"
    by (simp add: token_detail_def alice_gmail_def env0_def repr_dict_def py_repr_def
          repr_unit_def code_point_def continuation_bytes_def Let_def)
  have del: "delete_entity alice vault_alice
               = \<lparr>entities = [], tokens = [], journal = [DeleteEntityRow alice]\<rparr>"
    by (simp add: delete_entity_def vault_alice_def)
  from DeleteEntity_precondition [OF v a1] t1 d
  have 1: "snd (DeleteEntity env0 vault_alice_gmail ?r) = vault_alice_gmail
         \<and> fst (DeleteEntity env0 vault_alice_gmail ?r) =
         \<lparr>status = FAILED_PRECONDITION,
          details =
            ''You cannot delete entity because it still has stored tokens. '' @
            ''Revoke stored tokens with the following platforms and try again: '' @
            str_join ''; '' (map (token_detail env0) [alice_gmail]) @ ''.'',
          reply = response0\<rparr>"
    by simp
  from DeleteEntity_precondition [OF v a2] t2
  have 2: "DeleteEntity env0 vault_alice ?r =
         (ok (response0\<lparr>message := ''Entity deleted successfully.'', success := True\<rparr>),
          delete_entity alice vault_alice)"
    by simp
  from 1 have 3: "DeleteEntity env0 vault_alice_gmail ?r
       = (\<lparr>status = FAILED_PRECONDITION,
           details =
             ''You cannot delete entity because it still has stored tokens. '' @
             ''Revoke stored tokens with the following platforms and try again: '' @
             ''{'account_identifier': 'a@x', 'platform': 'gmail'}.'',
           reply = response0\<rparr>,
          vault_alice_gmail)"
    by (simp add: prod_eq_iff td)
  from v a1 t1 d 3 a2 t2 2 del show ?thesis by simp
qed


section \<open>The device ID is 64 hexadecimal digits\<close>


lemma length_sha256_round: "length (sha256_round st kw) = length st"
  by (induction st kw rule: sha256_round.induct) (simp_all add: Let_def)

lemma length_foldl_sha256_round: "length (foldl sha256_round st xs) = length st"
  by (induction xs arbitrary: st) (simp_all add: length_sha256_round)

lemma length_sha256_compress: "length (sha256_compress hs b) = length hs"
  by (simp add: sha256_compress_def length_foldl_sha256_round)

lemma length_foldl_sha256_compress: "length (foldl sha256_compress hs bs) = length hs"
  by (induction bs arbitrary: hs) (simp_all add: length_sha256_compress)

lemma length_concat_bytes_of_w32: "length (concat (map bytes_of_w32 ws)) = 4 * length ws"
  by (induction ws) (simp_all add: bytes_of_w32_def)

lemma length_sha256: "length (sha256 m) = 32"
  by (simp add: sha256_def Let_def length_concat_bytes_of_w32 length_foldl_sha256_compress
        H256_def)

lemma length_hexdigest: "length (hexdigest bs) = 2 * length bs"
  by (induction bs) (simp_all add: hexdigest_def)

lemma length_compute_device_id: "length (compute_device_id sk p pub) = 64"
  by (simp add: compute_device_id_def hmac_sha256_def Let_def length_hexdigest length_sha256)

lemma compute_device_id_nonempty: "compute_device_id sk p pub \<noteq> []"
  using length_compute_device_id [of sk p pub] by auto

section \<open>\<open>UpdateEntityToken\<close> and the platform whitelist\<close>

subsection \<open>Stored tokens have supported platforms\<close>

lemma tokens_handle_pow_verification:
  "tokens (snd (handle_pow_verification env w request)) = tokens w"
  by (simp add: handle_pow_verification_def Let_def split: prod.splits)

lemma tokens_handle_pow_initialization:
  "tokens (snd (handle_pow_initialization env w request)) = tokens w"
  by (simp add: handle_pow_initialization_def Let_def split: prod.splits)

lemma tokens_CreateEntity: "tokens (snd (CreateEntity env w request)) = tokens w"
  using tokens_handle_pow_verification [of env w request]
        tokens_handle_pow_initialization [of env w request]
  by (auto simp: CreateEntity_def snd_handle_exceptions complete_creation_def
        initiate_creation_def create_entity_def Let_def
      split: option.splits prod.splits sum.splits)

lemma tokens_AuthenticateEntity: "tokens (snd (AuthenticateEntity env w request)) = tokens w"
  using tokens_handle_pow_verification [of env w request]
        tokens_handle_pow_initialization [of env w request]
  by (auto simp: AuthenticateEntity_def snd_handle_exceptions complete_authentication_def
        initiate_authentication_def save_entity_def Let_def
      split: option.splits prod.splits sum.splits)

lemma tokens_ListEntityStoredTokens:
  "tokens (snd (ListEntityStoredTokens env w request)) = tokens w"
  by (auto simp: ListEntityStoredTokens_def snd_handle_exceptions
      split: option.splits prod.splits sum.splits)

lemma tokens_DecryptPayload: "tokens (snd (DecryptPayload env w request)) = tokens w"
  by (auto simp: DecryptPayload_def snd_handle_exceptions decrypt_message_def save_entity_def
        Let_def
      split: option.splits prod.splits sum.splits)

lemma tokens_GetEntityAccessToken:
  "tokens (snd (GetEntityAccessToken env w request)) = tokens w"
  by (auto simp: GetEntityAccessToken_def snd_handle_exceptions_ni fetch_tokens_def Let_def
      split: option.splits prod.splits sum.splits list.splits)

lemma tokens_EncryptPayload: "tokens (snd (EncryptPayload env w request)) = tokens w"
  by (auto simp: EncryptPayload_def snd_handle_exceptions Let_def split: option.splits)

lemma tokens_DeleteEntity: "tokens (snd (DeleteEntity env w request)) = tokens w"
  by (auto simp: DeleteEntity_def snd_handle_exceptions delete_entity_def
      split: option.splits prod.splits sum.splits)

lemma supported_StoreEntityToken:
  "supported_tokens w \<Longrightarrow> supported_tokens (snd (StoreEntityToken env w request))"
  by (auto simp: StoreEntityToken_def snd_handle_exceptions_ni supported_tokens_def
        create_entity_token_def Let_def
      split: option.splits prod.splits sum.splits)

lemma fetch_entity_tokens_subset:
  "t \<in> set (fetch_entity_tokens w e p h) \<Longrightarrow> t \<in> set (tokens w)"
  by (simp add: fetch_entity_tokens_def)

lemma supported_save_token:
  "supported_tokens w \<Longrightarrow> t \<in> set (tokens w) \<Longrightarrow>
   supported_tokens (save_token (t\<lparr>account_tokens := c\<rparr>) w)"
  by (auto simp: supported_tokens_def save_token_def list_all_iff)

lemma supported_UpdateEntityToken:
  assumes "supported_tokens w"
  shows "supported_tokens (snd (UpdateEntityToken env w request))"
proof -
  have "\<And>e p h t ts. fetch_entity_tokens w e p h = t # ts \<Longrightarrow> t \<in> set (tokens w)"
    using fetch_entity_tokens_subset by (metis list.set_intros(1))
  with assms show ?thesis
    by (auto simp: UpdateEntityToken_def snd_handle_exceptions Let_def supported_save_token
        split: option.splits list.splits)
qed

lemma supported_DeleteEntityToken:
  "supported_tokens w \<Longrightarrow> supported_tokens (snd (DeleteEntityToken env w request))"
  by (auto simp: DeleteEntityToken_def snd_handle_exceptions_ni supported_tokens_def
        delete_token_def Let_def list_all_iff
      split: option.splits prod.splits sum.splits list.splits)

lemma supported_serve:
  "supported_tokens w \<Longrightarrow> supported_tokens (snd (serve env w m request))"
  by (cases m)
     (simp_all add: supported_tokens_def tokens_CreateEntity tokens_AuthenticateEntity
        tokens_ListEntityStoredTokens tokens_DecryptPayload tokens_GetEntityAccessToken
        tokens_EncryptPayload tokens_DeleteEntity
        supported_StoreEntityToken [unfolded supported_tokens_def]
        supported_UpdateEntityToken [unfolded supported_tokens_def]
        supported_DeleteEntityToken [unfolded supported_tokens_def])

lemma reachable_supported_tokens: "reachable env w \<Longrightarrow> supported_tokens w"
proof (induction rule: reachable.induct)
  case reachable_init
  show ?case by (simp add: supported_tokens_def vault0_def)
next
  case (reachable_step w m request)
  then show ?case by (simp add: supported_serve)
qed

text \<open>
  C10 (as amended). \<open>UpdateEntityToken\<close> has no platform check of its own. In every
  store the service reaches from the empty one, a request that passes validation, names
  the device ID of an entity and a platform whose lower-cased name is not in
  \<open>SUPPORTED_PLATFORMS\<close> matches no token row: the answer is \<open>NOT_FOUND\<close>, not
  \<open>UNIMPLEMENTED\<close>, and the store is unchanged.
\<close>

theorem UpdateEntityToken_no_whitelist:
  assumes "reachable env w"
      and "validate_request_fields env request
             [Field ''device_id'', Field ''token'', Field ''platform'',
              Field ''account_identifier''] = None"
      and "find_entity w (By_device_id (req_device_id request)) = Some entity_obj"
      and "str_lower (req_platform request) \<notin> set SUPPORTED_PLATFORMS"
  shows "UpdateEntityToken env w request =
           (\<lparr>status = NOT_FOUND, details = no_token_found_msg request, reply = response0\<rparr>, w)"
proof -
  from assms(1) have "supported_tokens w" by (rule reachable_supported_tokens)
  with assms(4) have "\<forall>t \<in> set (tokens w). platform t \<noteq> req_platform request"
    by (auto simp: supported_tokens_def list_all_iff)
  then have "fetch_entity_tokens w entity_obj (Some (req_platform request))
               (Some (generate_hmac env (HASHING_KEY env) (req_account_identifier request))) = []"
    by (auto simp: fetch_entity_tokens_def filter_empty_conv)
  with assms(2,3) show ?thesis
    by (simp add: UpdateEntityToken_def error_response_def)
qed

lemma entities_after_create:
  "entities (snd (CreateEntity env0 vault0 create_request)) = [created_entity]"
  by (simp add: CreateEntity_def validate_request_fields_def getattr_def x25519_fields_def
        create_request_def request0_def env0_def find_entity_def vault0_def
        complete_creation_def handle_pow_verification_def create_entity_def Let_def
        created_entity_def)

lemma tokens_after_create: "tokens (snd (CreateEntity env0 vault0 create_request)) = []"
  by (simp add: tokens_CreateEntity vault0_def)

lemma verify_created:
  "verify_long_lived_token env0 (snd (CreateEntity env0 vault0 create_request)) store_request
     = (Some created_entity, None)"
proof -
  have k: "\<And>x. verify_llt env0 ''signed.e1'' x = (Some [(''eid'', JStr ''e1'')], [])"
    by (simp add: env0_def)
  show ?thesis
    by (simp add: verify_long_lived_token_def find_entity_def entities_after_create
          store_request_def created_entity_def k)
qed

lemma vault_stored_rows:
  "entities vault_stored = [created_entity] \<and> tokens vault_stored = [stored_token]"
proof -
  let ?w = "snd (CreateEntity env0 vault0 create_request)"
  have v: "validate_request_fields env0 store_request
             [Field ''long_lived_token'', Field ''token'', Field ''platform'',
              Field ''account_identifier''] = None"
    by (simp add: validate_request_fields_def getattr_def x25519_fields_def store_request_def)
  have l: "str_lower ''GMAIL'' = ''gmail''"
    by code_simp
  have p: "str_lower (req_platform store_request) \<in> set SUPPORTED_PLATFORMS"
    by (simp add: store_request_def l SUPPORTED_PLATFORMS_def)
  have f: "\<And>p h. fetch_entity_tokens ?w created_entity p h = []"
    by (simp add: fetch_entity_tokens_def tokens_after_create)
  have n: "\<lparr>entity = eid created_entity,
            platform = req_platform store_request,
            account_identifier_hash =
              generate_hmac env0 (HASHING_KEY env0) (req_account_identifier store_request),
            account_identifier = encrypt_and_encode env0 (req_account_identifier store_request),
            account_tokens = encrypt_and_encode env0 (req_token store_request)\<rparr>
           = stored_token"
    by (simp add: stored_token_def store_request_def created_entity_def env0_def)
  have "snd (StoreEntityToken env0 ?w store_request) = create_entity_token stored_token ?w"
    using p by (simp add: StoreEntityToken_def v verify_created f n Let_def)
  then show ?thesis
    by (simp add: vault_stored_def create_entity_token_def entities_after_create
          tokens_after_create)
qed

lemma reachable_vault_stored: "reachable env0 vault_stored"
proof -
  have "reachable env0 (snd (serve env0 vault0 M_CreateEntity create_request))"
    by (rule reachable_step [OF reachable_init])
  then have "reachable env0
               (snd (serve env0 (snd (serve env0 vault0 M_CreateEntity create_request))
                       M_StoreEntityToken store_request))"
    by (rule reachable_step)
  then show ?thesis by (simp add: vault_stored_def)
qed

lemma validate_update_request:
  "p \<noteq> [] \<Longrightarrow>
   validate_request_fields env0 (update_request p)
     [Field ''device_id'', Field ''token'', Field ''platform'', Field ''account_identifier'']
   = None"
  by (simp add: validate_request_fields_def getattr_def x25519_fields_def update_request_def
        compute_device_id_nonempty)

lemma find_created_by_device_id:
  "find_entity vault_stored (By_device_id (req_device_id (update_request p)))
     = Some created_entity"
  by (simp add: find_entity_def vault_stored_rows update_request_def created_entity_def)

theorem UpdateEntityToken_no_whitelist_witness:
  "reachable env0 vault_stored
   \<and> tokens vault_stored = [stored_token]
   \<and> validate_request_fields env0 (update_request ''twitter'')
        [Field ''device_id'', Field ''token'', Field ''platform'',
         Field ''account_identifier''] = None
   \<and> find_entity vault_stored (By_device_id (req_device_id (update_request ''twitter'')))
       = Some created_entity
   \<and> str_lower ''twitter'' \<notin> set SUPPORTED_PLATFORMS
   \<and> UpdateEntityToken env0 vault_stored (update_request ''twitter'')
       = (\<lparr>status = NOT_FOUND,
           details = ''No token found with account identifier a@x for twitter'',
           reply = response0\<rparr>,
          vault_stored)"
proof -
  have v: "validate_request_fields env0 (update_request ''twitter'')
        [Field ''device_id'', Field ''token'', Field ''platform'',
         Field ''account_identifier''] = None"
    by (rule validate_update_request) simp
  have p: "str_lower (req_platform (update_request ''twitter'')) \<notin> set SUPPORTED_PLATFORMS"
    by (simp add: update_request_def str_lower_def char_lower_def SUPPORTED_PLATFORMS_def)
  have m: "no_token_found_msg (update_request ''twitter'')
             = ''No token found with account identifier a@x for twitter''"
    by (simp add: no_token_found_msg_def update_request_def)
  from UpdateEntityToken_no_whitelist
         [OF reachable_vault_stored v find_created_by_device_id p] m
  have u: "UpdateEntityToken env0 vault_stored (update_request ''twitter'')
       = (\<lparr>status = NOT_FOUND,
           details = ''No token found with account identifier a@x for twitter'',
           reply = response0\<rparr>, vault_stored)"
    by simp
  from p have p': "str_lower ''twitter'' \<notin> set SUPPORTED_PLATFORMS"
    by (simp add: update_request_def)
  from reachable_vault_stored vault_stored_rows v find_created_by_device_id p' u
  show ?thesis by blast
qed

text \<open>
  C10 as stated fails. The platform name \<open>GMAIL\<close> is not in \<open>SUPPORTED_PLATFORMS\<close>, yet
  \<open>StoreEntityToken\<close> admits it, since its lower-cased form is, and stores it as given.
  On the store so reached \<open>UpdateEntityToken\<close> for \<open>GMAIL\<close> finds the row, rewrites its
  \<open>account_tokens\<close> and answers success, not \<open>NOT_FOUND\<close>.
\<close>

theorem UpdateEntityToken_updates_upper_case_platform:
  "''GMAIL'' \<notin> set SUPPORTED_PLATFORMS
   \<and> reachable env0 vault_stored
   \<and> entities vault_stored = [created_entity] \<and> tokens vault_stored = [stored_token]
   \<and> UpdateEntityToken env0 vault_stored (update_request ''GMAIL'')
       = (ok (response0\<lparr>message := ''Token updated successfully.'', success := True\<rparr>),
          vault_stored
            \<lparr>tokens := [stored_token\<lparr>account_tokens := ''enc.T2''\<rparr>],
             journal := journal vault_stored @
                        [SaveToken (stored_token\<lparr>account_tokens := ''enc.T2''\<rparr>)]\<rparr>)"
proof -
  have s: "''GMAIL'' \<notin> set SUPPORTED_PLATFORMS"
    by (simp add: SUPPORTED_PLATFORMS_def)
  have v: "validate_request_fields env0 (update_request ''GMAIL'')
        [Field ''device_id'', Field ''token'', Field ''platform'',
         Field ''account_identifier''] = None"
    by (rule validate_update_request) simp
  have h: "generate_hmac env0 (HASHING_KEY env0) (req_account_identifier (update_request ''GMAIL''))
             = ''h.a@x''"
    by (simp add: update_request_def env0_def)
  have f: "fetch_entity_tokens vault_stored created_entity
             (Some (req_platform (update_request ''GMAIL''))) (Some ''h.a@x'') = [stored_token]"
    by (simp add: fetch_entity_tokens_def vault_stored_rows update_request_def
          stored_token_def created_entity_def)
  have e: "encrypt_and_encode env0 (req_token (update_request ''GMAIL'')) = ''enc.T2''"
    by (simp add: update_request_def env0_def)
  have u: "UpdateEntityToken env0 vault_stored (update_request ''GMAIL'')
       = (ok (response0\<lparr>message := ''Token updated successfully.'', success := True\<rparr>),
          save_token (stored_token\<lparr>account_tokens := ''enc.T2''\<rparr>) vault_stored)"
    by (simp add: UpdateEntityToken_def v find_created_by_device_id h f e Let_def)
  have w: "save_token (stored_token\<lparr>account_tokens := ''enc.T2''\<rparr>) vault_stored
         = vault_stored
            \<lparr>tokens := [stored_token\<lparr>account_tokens := ''enc.T2''\<rparr>],
             journal := journal vault_stored @
                        [SaveToken (stored_token\<lparr>account_tokens := ''enc.T2''\<rparr>)]\<rparr>"
    by (simp add: save_token_def vault_stored_rows same_token_def)
  from s reachable_vault_stored vault_stored_rows u w show ?thesis by simp
qed

section \<open>\<open>AuthenticateEntity\<close>: when the device binding is cleared\<close>

lemma login_phone_hash:
  "generate_hmac env0 (HASHING_KEY env0) ''+237600000001'' = ''h.+237600000001''"
  by (simp add: env0_def)

lemma login_phone_hash_down:
  "generate_hmac env_otp_down (HASHING_KEY env_otp_down) ''+237600000001''
     = ''h.+237600000001''"
  by (simp add: env_otp_down_def env0_def)

text \<open>
  C2 (as amended). \<open>AuthenticateEntity\<close> for the phone number of a stored entity. Phase 1,
  the password verified: the OTP send call is made first; when the gateway reports
  success the entity's \<open>device_id\<close> and \<open>server_state\<close> are set to null and saved, after
  the call; when it reports failure nothing is cleared. Phase 2, the public keys valid:
  when the OTP verifies, the entity is saved with a new \<open>device_id\<close> and the
  \<open>server_state\<close> it had; when it does not, no row is written.
\<close>

theorem AuthenticateEntity_rebinding:
  assumes "req_phone_number request \<noteq> []"
      and "find_entity w (By_phone_number_hash
             (generate_hmac env (HASHING_KEY env) (req_phone_number request))) = Some entity_obj"
  shows
   "(req_ownership_proof_response request = [] \<and> req_password request \<noteq> []
       \<and> verify_hmac env (HASHING_KEY env) (req_password request) (password_hash entity_obj)
       \<and> send_otp env (req_phone_number request) = (True, msg, expires) \<longrightarrow>
      AuthenticateEntity env w request =
        (ok (response0\<lparr>message := msg, requires_ownership_proof := True,
                       next_attempt_timestamp := expires\<rparr>),
         w\<lparr>entities := map (\<lambda>x. if eid x = eid entity_obj then cleared entity_obj else x)
                          (entities w),
           journal := journal w @ [SendOtp (req_phone_number request),
                                   SaveEntity (cleared entity_obj)]\<rparr>))
    \<and> (req_ownership_proof_response request = [] \<and> req_password request \<noteq> []
       \<and> verify_hmac env (HASHING_KEY env) (req_password request) (password_hash entity_obj)
       \<and> send_otp env (req_phone_number request) = (False, msg, expires) \<longrightarrow>
      AuthenticateEntity env w request =
        (\<lparr>status = INVALID_ARGUMENT,
          details = ''Ownership proof initialization failed. Reason: '' @ msg,
          reply = response0\<rparr>,
         w\<lparr>journal := journal w @ [SendOtp (req_phone_number request)]\<rparr>))
    \<and> (req_ownership_proof_response request \<noteq> []
       \<and> validate_request_fields env request
            [Field ''client_publish_pub_key'', Field ''client_device_id_pub_key''] = None
       \<and> verify_otp env (req_phone_number request) (req_ownership_proof_response request)
            = (True, vmsg) \<longrightarrow>
      (\<exists>rebound.
         snd (AuthenticateEntity env w request) =
           w\<lparr>entities := map (\<lambda>x. if eid x = eid entity_obj then rebound else x) (entities w),
             journal := journal w @ [VerifyOtp (req_phone_number request)
                                       (req_ownership_proof_response request),
                                     SaveEntity rebound]\<rparr>
         \<and> eid rebound = eid entity_obj
         \<and> device_id rebound =
             Some (compute_device_id
                     (agree env
                        (fst (generate_keypair_and_public_key env
                                (path_join (KEYSTORE_PATH env)
                                   (eid entity_obj @ ''_device_id.db''))))
                        (b64decode env (req_client_device_id_pub_key request)))
                     (req_phone_number request) (req_client_device_id_pub_key request))
         \<and> server_state rebound = server_state entity_obj))
    \<and> (req_ownership_proof_response request \<noteq> []
       \<and> validate_request_fields env request
            [Field ''client_publish_pub_key'', Field ''client_device_id_pub_key''] = None
       \<and> verify_otp env (req_phone_number request) (req_ownership_proof_response request)
            = (False, vmsg) \<longrightarrow>
      AuthenticateEntity env w request =
        (\<lparr>status = UNAUTHENTICATED,
          details = ''Ownership proof verification failed. Reason: '' @ vmsg,
          reply = response0\<rparr>,
         w\<lparr>journal := journal w @ [VerifyOtp (req_phone_number request)
                                     (req_ownership_proof_response request)]\<rparr>))"
proof (intro conjI impI)
  assume "req_ownership_proof_response request = [] \<and> req_password request \<noteq> []
       \<and> verify_hmac env (HASHING_KEY env) (req_password request) (password_hash entity_obj)
       \<and> send_otp env (req_phone_number request) = (True, msg, expires)"
  with assms show "AuthenticateEntity env w request =
        (ok (response0\<lparr>message := msg, requires_ownership_proof := True,
                       next_attempt_timestamp := expires\<rparr>),
         w\<lparr>entities := map (\<lambda>x. if eid x = eid entity_obj then cleared entity_obj else x)
                          (entities w),
           journal := journal w @ [SendOtp (req_phone_number request),
                                   SaveEntity (cleared entity_obj)]\<rparr>)"
    by (simp add: AuthenticateEntity_def validate_phone_number validate_password
          initiate_authentication_def handle_pow_initialization_def save_entity_def
          cleared_def)
next
  assume "req_ownership_proof_response request = [] \<and> req_password request \<noteq> []
       \<and> verify_hmac env (HASHING_KEY env) (req_password request) (password_hash entity_obj)
       \<and> send_otp env (req_phone_number request) = (False, msg, expires)"
  with assms show "AuthenticateEntity env w request =
        (\<lparr>status = INVALID_ARGUMENT,
          details = ''Ownership proof initialization failed. Reason: '' @ msg,
          reply = response0\<rparr>,
         w\<lparr>journal := journal w @ [SendOtp (req_phone_number request)]\<rparr>)"
    by (simp add: AuthenticateEntity_def validate_phone_number validate_password
          initiate_authentication_def handle_pow_initialization_def error_response_def)
next
  assume h: "req_ownership_proof_response request \<noteq> []
       \<and> validate_request_fields env request
            [Field ''client_publish_pub_key'', Field ''client_device_id_pub_key''] = None
       \<and> verify_otp env (req_phone_number request) (req_ownership_proof_response request)
            = (True, vmsg)"
  show "\<exists>rebound.
         snd (AuthenticateEntity env w request) =
           w\<lparr>entities := map (\<lambda>x. if eid x = eid entity_obj then rebound else x) (entities w),
             journal := journal w @ [VerifyOtp (req_phone_number request)
                                       (req_ownership_proof_response request),
                                     SaveEntity rebound]\<rparr>
         \<and> eid rebound = eid entity_obj
         \<and> device_id rebound =
             Some (compute_device_id
                     (agree env
                        (fst (generate_keypair_and_public_key env
                                (path_join (KEYSTORE_PATH env)
                                   (eid entity_obj @ ''_device_id.db''))))
                        (b64decode env (req_client_device_id_pub_key request)))
                     (req_phone_number request) (req_client_device_id_pub_key request))
         \<and> server_state rebound = server_state entity_obj"
  proof -
    obtain kp1 pub1 where g1:
      "generate_keypair_and_public_key env
         (path_join (KEYSTORE_PATH env) (eid entity_obj @ ''_publish.db'')) = (kp1, pub1)"
      by (cases "generate_keypair_and_public_key env
         (path_join (KEYSTORE_PATH env) (eid entity_obj @ ''_publish.db''))")
    obtain kp2 pub2 where g2:
      "generate_keypair_and_public_key env
         (path_join (KEYSTORE_PATH env) (eid entity_obj @ ''_device_id.db'')) = (kp2, pub2)"
      by (cases "generate_keypair_and_public_key env
         (path_join (KEYSTORE_PATH env) (eid entity_obj @ ''_device_id.db''))")
    let ?new = "entity_obj
       \<lparr>device_id := Some (compute_device_id
                            (agree env kp2 (b64decode env (req_client_device_id_pub_key request)))
                            (req_phone_number request) (req_client_device_id_pub_key request)),
        client_publish_pub_key := req_client_publish_pub_key request,
        client_device_id_pub_key := req_client_device_id_pub_key request,
        publish_keypair := serialize env kp1,
        device_id_keypair := serialize env kp2\<rparr>"
    from assms h have "snd (AuthenticateEntity env w request) =
           w\<lparr>entities := map (\<lambda>x. if eid x = eid entity_obj then ?new else x) (entities w),
             journal := journal w @ [VerifyOtp (req_phone_number request)
                                       (req_ownership_proof_response request),
                                     SaveEntity ?new]\<rparr>"
      by (simp add: AuthenticateEntity_def validate_phone_number
            complete_authentication_def handle_pow_verification_def save_entity_def Let_def
            g1 g2)
    then show ?thesis
      by (intro exI [of _ ?new]) (simp add: g2)
  qed
next
  assume "req_ownership_proof_response request \<noteq> []
       \<and> validate_request_fields env request
            [Field ''client_publish_pub_key'', Field ''client_device_id_pub_key''] = None
       \<and> verify_otp env (req_phone_number request) (req_ownership_proof_response request)
            = (False, vmsg)"
  with assms show "AuthenticateEntity env w request =
        (\<lparr>status = UNAUTHENTICATED,
          details = ''Ownership proof verification failed. Reason: '' @ vmsg,
          reply = response0\<rparr>,
         w\<lparr>journal := journal w @ [VerifyOtp (req_phone_number request)
                                     (req_ownership_proof_response request)]\<rparr>)"
    by (simp add: AuthenticateEntity_def validate_phone_number
          complete_authentication_def handle_pow_verification_def error_response_def)
qed

theorem AuthenticateEntity_rebinding_witness:
  "find_entity vault_alice (By_phone_number_hash ''h.+237600000001'') = Some alice
   \<and> verify_hmac env0 (HASHING_KEY env0) ''hunter2'' (password_hash alice)
   \<and> send_otp env0 ''+237600000001'' = (True, ''sent'', 60)
   \<and> AuthenticateEntity env0 vault_alice login_request =
        (ok (response0\<lparr>message := ''sent'', requires_ownership_proof := True,
                       next_attempt_timestamp := 60\<rparr>),
         \<lparr>entities = [cleared alice], tokens = [],
          journal = [SendOtp ''+237600000001'', SaveEntity (cleared alice)]\<rparr>)
   \<and> send_otp env_otp_down ''+237600000001'' = (False, ''gateway down'', 0)
   \<and> snd (AuthenticateEntity env_otp_down vault_alice login_request) =
        \<lparr>entities = [alice], tokens = [], journal = [SendOtp ''+237600000001'']\<rparr>
   \<and> verify_otp env0 ''+237600000001'' ''123456'' = (True, ''approved'')
   \<and> (\<exists>rebound.
         snd (AuthenticateEntity env0 vault_alice login_proof_request) =
           \<lparr>entities = [rebound], tokens = [],
            journal = [VerifyOtp ''+237600000001'' ''123456'', SaveEntity rebound]\<rparr>
         \<and> device_id rebound = Some (compute_device_id [7] ''+237600000001'' ''cdid2'')
         \<and> server_state rebound = Some ''state0'')
   \<and> verify_otp env0 ''+237600000001'' ''000000'' = (False, ''denied'')
   \<and> snd (AuthenticateEntity env0 vault_alice
             (login_proof_request\<lparr>req_ownership_proof_response := ''000000''\<rparr>)) =
        \<lparr>entities = [alice], tokens = [],
         journal = [VerifyOtp ''+237600000001'' ''000000'']\<rparr>"
proof -
  let ?bad = "login_proof_request\<lparr>req_ownership_proof_response := ''000000''\<rparr>"
  have l: "req_phone_number login_request = ''+237600000001''"
    "req_password login_request = ''hunter2''"
    "req_ownership_proof_response login_request = []"
    by (simp_all add: login_request_def request0_def)
  have q: "req_phone_number login_proof_request = ''+237600000001''"
    "req_ownership_proof_response login_proof_request = ''123456''"
    "req_client_device_id_pub_key login_proof_request = ''cdid2''"
    by (simp_all add: login_proof_request_def)
  have b: "req_phone_number ?bad = ''+237600000001''"
    "req_ownership_proof_response ?bad = ''000000''"
    by (simp_all add: login_proof_request_def)
  have e: "verify_hmac env0 (HASHING_KEY env0) ''hunter2'' (password_hash alice)"
    "verify_hmac env_otp_down (HASHING_KEY env_otp_down) ''hunter2'' (password_hash alice)"
    "send_otp env0 ''+237600000001'' = (True, ''sent'', 60)"
    "send_otp env_otp_down ''+237600000001'' = (False, ''gateway down'', 0)"
    "verify_otp env0 ''+237600000001'' ''123456'' = (True, ''approved'')"
    "verify_otp env0 ''+237600000001'' ''000000'' = (False, ''denied'')"
    "\<And>x. generate_keypair_and_public_key env0 x = (Keypair [1] [2], [2])"
    "\<And>k x. agree env0 k x = [7]"
    by (simp_all add: env0_def env_otp_down_def alice_def)
  have v: "validate_request_fields env0 login_proof_request
             [Field ''client_publish_pub_key'', Field ''client_device_id_pub_key''] = None"
    "validate_request_fields env0 ?bad
             [Field ''client_publish_pub_key'', Field ''client_device_id_pub_key''] = None"
    by (simp_all add: validate_request_fields_def getattr_def x25519_fields_def
          login_proof_request_def request0_def env0_def)
  have w: "entities vault_alice = [alice]" "tokens vault_alice = []" "journal vault_alice = []"
    by (simp_all add: vault_alice_def)
  have 1: "AuthenticateEntity env0 vault_alice login_request =
        (ok (response0\<lparr>message := ''sent'', requires_ownership_proof := True,
                       next_attempt_timestamp := 60\<rparr>),
         \<lparr>entities = [cleared alice], tokens = [],
          journal = [SendOtp ''+237600000001'', SaveEntity (cleared alice)]\<rparr>)"
    using AuthenticateEntity_rebinding
            [of login_request vault_alice env0 alice "''sent''" 60]
          find_alice_by_phone
    by (simp add: l e login_phone_hash) (simp add: vault_alice_def)
  have 2: "snd (AuthenticateEntity env_otp_down vault_alice login_request) =
        \<lparr>entities = [alice], tokens = [], journal = [SendOtp ''+237600000001'']\<rparr>"
    using AuthenticateEntity_rebinding
            [of login_request vault_alice env_otp_down alice "''gateway down''" 0]
          find_alice_by_phone
    by (simp add: l e login_phone_hash_down) (simp add: vault_alice_def)
  from AuthenticateEntity_rebinding
         [of login_proof_request vault_alice env0 alice _ _ "''approved''"]
       find_alice_by_phone
  have 3: "\<exists>rebound.
         snd (AuthenticateEntity env0 vault_alice login_proof_request) =
           \<lparr>entities = [rebound], tokens = [],
            journal = [VerifyOtp ''+237600000001'' ''123456'', SaveEntity rebound]\<rparr>
         \<and> device_id rebound = Some (compute_device_id [7] ''+237600000001'' ''cdid2'')
         \<and> server_state rebound = Some ''state0''"
    by (simp add: q e v login_phone_hash) (auto simp: vault_alice_def alice_def)
  have 4: "snd (AuthenticateEntity env0 vault_alice ?bad) =
        \<lparr>entities = [alice], tokens = [],
         journal = [VerifyOtp ''+237600000001'' ''000000'']\<rparr>"
    using AuthenticateEntity_rebinding
            [of ?bad vault_alice env0 alice _ _ "''denied''"]
          find_alice_by_phone
    by (simp add: b e v login_phone_hash) (simp add: vault_alice_def)
  from find_alice_by_phone e 1 2 3 4 show ?thesis by blast
qed

text \<open>
  C2 as stated fails. With a gateway that refuses, the send call is made and \<open>alice\<close>
  keeps its \<open>device_id\<close> and \<open>server_state\<close>: they were not cleared before the call.
  With a gateway that sends, the write that clears them follows the call. And phase 2
  on the cleared entity stores a new \<open>device_id\<close> but leaves \<open>server_state\<close> null.
\<close>

theorem AuthenticateEntity_clears_after_send:
  "AuthenticateEntity env_otp_down vault_alice login_request =
     (\<lparr>status = INVALID_ARGUMENT,
       details = ''Ownership proof initialization failed. Reason: gateway down'',
       reply = response0\<rparr>,
      \<lparr>entities = [alice], tokens = [], journal = [SendOtp ''+237600000001'']\<rparr>)
   \<and> device_id alice = Some ''d1'' \<and> server_state alice = Some ''state0''
   \<and> snd (AuthenticateEntity env0 vault_alice login_request) =
       \<lparr>entities = [cleared alice], tokens = [],
        journal = [SendOtp ''+237600000001'', SaveEntity (cleared alice)]\<rparr>
   \<and> map server_state
         (entities (snd (AuthenticateEntity env0
                           \<lparr>entities = [cleared alice], tokens = [], journal = []\<rparr>
                           login_proof_request))) = [None]
   \<and> map device_id
         (entities (snd (AuthenticateEntity env0
                           \<lparr>entities = [cleared alice], tokens = [], journal = []\<rparr>
                           login_proof_request)))
       = [Some (compute_device_id [7] ''+237600000001'' ''cdid2'')]"
proof -
  have a: "AuthenticateEntity env_otp_down vault_alice login_request =
     (\<lparr>status = INVALID_ARGUMENT,
       details = ''Ownership proof initialization failed. Reason: gateway down'',
       reply = response0\<rparr>,
      \<lparr>entities = [alice], tokens = [], journal = [SendOtp ''+237600000001'']\<rparr>)"
    by (simp add: AuthenticateEntity_def validate_phone_number validate_password
          login_request_def request0_def login_phone_hash_down find_alice_by_phone
          initiate_authentication_def handle_pow_initialization_def error_response_def)
       (simp add: env_otp_down_def env0_def alice_def vault_alice_def error_response_def)
  have b: "device_id alice = Some ''d1'' \<and> server_state alice = Some ''state0''"
    by (simp add: alice_def)
  have c: "snd (AuthenticateEntity env0 vault_alice login_request) =
       \<lparr>entities = [cleared alice], tokens = [],
        journal = [SendOtp ''+237600000001'', SaveEntity (cleared alice)]\<rparr>"
    by (simp add: AuthenticateEntity_def validate_phone_number validate_password
          login_request_def request0_def login_phone_hash find_alice_by_phone
          initiate_authentication_def handle_pow_initialization_def save_entity_def
          cleared_def)
       (simp add: env0_def alice_def vault_alice_def save_entity_def)
  have f: "find_entity \<lparr>entities = [cleared alice], tokens = [], journal = []\<rparr>
             (By_phone_number_hash ''h.+237600000001'') = Some (cleared alice)"
    by (simp add: find_entity_def cleared_def alice_def)
  have v: "validate_request_fields env0 login_proof_request
             [Field ''client_publish_pub_key'', Field ''client_device_id_pub_key''] = None"
    by (simp add: validate_request_fields_def getattr_def x25519_fields_def
          login_proof_request_def request0_def env0_def)
  have d: "entities (snd (AuthenticateEntity env0
                           \<lparr>entities = [cleared alice], tokens = [], journal = []\<rparr>
                           login_proof_request))
           = [cleared alice
                \<lparr>device_id := Some (compute_device_id [7] ''+237600000001'' ''cdid2''),
                 client_publish_pub_key := ''cpub2'',
                 client_device_id_pub_key := ''cdid2'',
                 publish_keypair := ''kp'',
                 device_id_keypair := ''kp''\<rparr>]"
  proof -
    have q: "req_phone_number login_proof_request = ''+237600000001''"
      "req_ownership_proof_response login_proof_request = ''123456''"
      "req_client_publish_pub_key login_proof_request = ''cpub2''"
      "req_client_device_id_pub_key login_proof_request = ''cdid2''"
      by (simp_all add: login_proof_request_def)
    have e: "verify_otp env0 ''+237600000001'' ''123456'' = (True, ''approved'')"
      "\<And>x. generate_keypair_and_public_key env0 x = (Keypair [1] [2], [2])"
      "\<And>k x. agree env0 k x = [7]"
      "\<And>k. serialize env0 k = ''kp''"
      by (simp_all add: env0_def)
    show ?thesis
      by (simp add: AuthenticateEntity_def validate_phone_number v q e login_phone_hash f
            complete_authentication_def handle_pow_verification_def save_entity_def Let_def)
  qed
  from a b c d show ?thesis by (simp add: cleared_def)
qed

section \<open>The alphabet of the device ID\<close>

lemma hex_digits: "map hex_digit [0..<16] = ''0123456789abcdef''"
  by code_simp

lemma hex_digit_lower:
  "n < 16 \<Longrightarrow> hex_digit n \<in> set ''0123456789abcdef''"
proof -
  assume n: "n < 16"
  then have "hex_digit n = map hex_digit [0..<16] ! n" by simp
  also have "\<dots> \<in> set (map hex_digit [0..<16])"
    using n by (intro nth_mem) simp
  finally show ?thesis by (simp only: hex_digits)
qed

lemma hexdigest_lower: "list_all (\<lambda>c. c \<in> set ''0123456789abcdef'') (hexdigest bs)"
proof -
  have "\<And>b :: byte. unat b div 16 < 16"
  proof -
    fix b :: byte
    have "unat b < 2 ^ LENGTH(8)" by (rule unsigned_less)
    then have "unat b < 256" by simp
    then show "unat b div 16 < 16" by simp
  qed
  then show ?thesis
    by (induction bs) (simp_all add: hexdigest_def hex_digit_lower del: set_simps)
qed

text \<open>
  The device ID that \<open>compute_device_id\<close> returns is 64 characters long, each a
  lower-case hexadecimal digit.
\<close>

theorem device_id_is_64_hex_digits:
  "length (compute_device_id sk p pub) = 64
   \<and> list_all (\<lambda>c. c \<in> set ''0123456789abcdef'') (compute_device_id sk p pub)"
  by (simp add: compute_device_id_def hmac_sha256_def Let_def length_hexdigest length_sha256
        hexdigest_lower del: set_simps)

end
